theory Spec2Isabelle
  imports Main "HOL-Library.Word"
begin

section \<open>UrbanFarmTwinFHE: the contract as a state transformer\<close>

text \<open>
  The embedding follows \<^verbatim>\<open>src/contracts/UrbanFarmTwinFHE.sol\<close>. A public function of
  the contract is a function from the contract state to \<open>error + state\<close>: \<open>Inl\<close> is a
  revert (the transaction leaves no trace), \<open>Inr\<close> the state after a successful call.
  The state holds the storage variables of the contract and two logs that a transaction
  extends: the events it emits and the decryption requests it hands to the oracle.

  Solidity's \<open>uint256\<close> and \<open>bytes32\<close> are 256-bit words, \<open>uint32\<close> is a 32-bit word,
  \<open>string\<close> and \<open>bytes\<close> are byte sequences (an Isabelle \<open>char\<close> is one byte). An
  \<open>euint32\<close> is a ciphertext handle: a user-defined value type over one 32-byte word,
  whose default value in storage is the zero word. A mapping is a total function whose
  value at a key never written is the default value of the value type; a mapping from
  strings is keyed by the string (the hash that locates its slot is taken to be free of
  collisions).
\<close>

type_synonym uint256 = "256 word"
type_synonym bytes32 = "256 word"
type_synonym uint32 = "32 word"
type_synonym uint8 = "8 word"
type_synonym euint32 = "256 word"
type_synonym bytes = string

subsection \<open>Structs\<close>

record EncryptedReading =
  reading_id :: uint256
  encryptedTimestamp :: euint32
  encryptedTemperature :: euint32
  encryptedHumidity :: euint32
  encryptedCO2 :: euint32
  encryptedLight :: euint32
  encryptedSoilMoisture :: euint32

record EncryptedTwin =
  twin_id :: uint256
  encryptedStateHash :: euint32
  encryptedHealthScore :: euint32
  lastUpdated :: uint256

record DecryptedTwin =
  stateSummary :: string
  healthScore :: uint32
  twin_revealed :: bool

record EncryptedRecommendation =
  rec_id :: uint256
  encryptedWateringSchedule :: euint32
  encryptedNutrientPlan :: euint32
  encryptedLightAdjust :: euint32
  generatedAt :: uint256

record DecryptedRecommendation =
  watering :: string
  nutrients :: string
  lightAdjust :: string
  rec_revealed :: bool

text \<open>The value of a mapping entry that was never written: every field zero or empty.\<close>

definition default_reading :: EncryptedReading where
  "default_reading = \<lparr>reading_id = 0, encryptedTimestamp = 0, encryptedTemperature = 0,
     encryptedHumidity = 0, encryptedCO2 = 0, encryptedLight = 0, encryptedSoilMoisture = 0\<rparr>"

definition default_twin :: EncryptedTwin where
  "default_twin = \<lparr>twin_id = 0, encryptedStateHash = 0, encryptedHealthScore = 0, lastUpdated = 0\<rparr>"

definition default_decrypted_twin :: DecryptedTwin where
  "default_decrypted_twin = \<lparr>stateSummary = [], healthScore = 0, twin_revealed = False\<rparr>"

definition default_recommendation :: EncryptedRecommendation where
  "default_recommendation = \<lparr>rec_id = 0, encryptedWateringSchedule = 0, encryptedNutrientPlan = 0,
     encryptedLightAdjust = 0, generatedAt = 0\<rparr>"

definition default_decrypted_recommendation :: DecryptedRecommendation where
  "default_decrypted_recommendation = \<lparr>watering = [], nutrients = [], lightAdjust = [], rec_revealed = False\<rparr>"

subsection \<open>Events, reverts, and what leaves the contract\<close>

datatype event =
  ReadingSubmitted uint256 uint256
| TwinUpdateRequested uint256 uint256
| TwinDecrypted uint256
| RecommendationRequested uint256 uint256
| RecommendationDecrypted uint256
| PlainAggregateResult string uint32

text \<open>
  \<open>Revert\<close> carries the reason string of a \<open>require\<close> or \<open>revert\<close>; \<open>Panic 0x11\<close> is
  checked arithmetic overflowing and \<open>Panic 0x41\<close> an array allocation that is too large;
  \<open>InvalidSignatures\<close> is \<open>FHE.checkSignatures\<close> rejecting the proof;
  \<open>AbiDecodeFailed\<close> is \<open>abi.decode\<close> (or the decoder of the call arguments) rejecting
  its input; \<open>DecryptionRequestRejected\<close> is \<open>FHE.requestDecryption\<close> reverting, as the
  library does for a handle that the contract is not allowed to have decrypted.
\<close>

datatype error =
  Revert string | Panic nat | InvalidSignatures | AbiDecodeFailed | DecryptionRequestRejected

datatype selector = Sel_decryptTwinUpdate | Sel_decryptRecommendation | Sel_decryptAggregate

subsection \<open>The imported library and the built-ins\<close>

text \<open>
  \<open>FHE\<close> is imported from \<^verbatim>\<open>@fhevm/solidity\<close> and is not part of the repository, and
  \<open>keccak256\<close> and \<open>abi.decode\<close> are built into the language. The contract uses them as
  opaque calls, so the model takes them as parameters: \<open>FHE_checkSignatures\<close> is \<open>True\<close>
  where the library call returns and \<open>False\<close> where it reverts, the two decoders return
  \<open>None\<close> where \<open>abi.decode\<close> reverts. The calls that compute or inspect a handle
  (\<open>FHE.asEuint32\<close>, \<open>FHE.add\<close>, \<open>FHE.isInitialized\<close>, \<open>FHE.toBytes32\<close>) are taken to
  return a value, and to return the same value for the same arguments. Events that the
  library emits on its own are not part of the log of the contract.
\<close>

record environment =
  FHE_asEuint32 :: "uint32 \<Rightarrow> euint32"
  FHE_add :: "euint32 \<Rightarrow> euint32 \<Rightarrow> euint32"
  FHE_isInitialized :: "euint32 \<Rightarrow> bool"
  FHE_toBytes32 :: "euint32 \<Rightarrow> bytes32"
  FHE_checkSignatures :: "uint256 \<Rightarrow> bytes \<Rightarrow> bytes \<Rightarrow> bool"
  keccak256 :: "bytes \<Rightarrow> bytes32"
  abi_decode_strings :: "bytes \<Rightarrow> string list option"
  abi_decode_uint32 :: "bytes \<Rightarrow> uint32 option"

text \<open>
  What a transaction receives from outside: \<open>block.timestamp\<close>, and the answer of
  \<open>FHE.requestDecryption\<close> if the transaction calls it. The library call reverts or
  returns, depending on the handles and the callback it is given and on what the access
  control list of the library holds at that time: \<open>requestDecryption_accepts\<close> is \<open>True\<close>
  for the arguments on which it returns, and \<open>requestDecryption_result\<close> is the request
  identifier it returns then.
\<close>

record tx_context =
  block_timestamp :: uint256
  requestDecryption_result :: uint256
  requestDecryption_accepts :: "bytes32 list \<Rightarrow> selector \<Rightarrow> bool"

subsection \<open>Contract storage and logs\<close>

record contract =
  readingCount :: uint256
  twinCount :: uint256
  recommendationCount :: uint256
  readings :: "uint256 \<Rightarrow> EncryptedReading"
  encryptedTwins :: "uint256 \<Rightarrow> EncryptedTwin"
  decryptedTwins :: "uint256 \<Rightarrow> DecryptedTwin"
  encryptedRecommendations :: "uint256 \<Rightarrow> EncryptedRecommendation"
  decryptedRecommendations :: "uint256 \<Rightarrow> DecryptedRecommendation"
  encryptedMetricAggregates :: "string \<Rightarrow> euint32"
  metricKeys :: "string list"
  requestToEntityId :: "uint256 \<Rightarrow> uint256"
  requestToTag :: "uint256 \<Rightarrow> bytes32"
  events :: "event list"
  decryptionRequests :: "(uint256 \<times> bytes32 list \<times> selector) list"

definition init_state :: contract where
  "init_state = \<lparr>readingCount = 0, twinCount = 0, recommendationCount = 0,
     readings = (\<lambda>_. default_reading),
     encryptedTwins = (\<lambda>_. default_twin),
     decryptedTwins = (\<lambda>_. default_decrypted_twin),
     encryptedRecommendations = (\<lambda>_. default_recommendation),
     decryptedRecommendations = (\<lambda>_. default_decrypted_recommendation),
     encryptedMetricAggregates = (\<lambda>_. 0),
     metricKeys = [],
     requestToEntityId = (\<lambda>_. 0),
     requestToTag = (\<lambda>_. 0),
     events = [],
     decryptionRequests = []\<rparr>"

subsection \<open>Checked arithmetic\<close>

text \<open>\<open>x += 1\<close> on a \<open>uint256\<close> under Solidity 0.8: a panic instead of a wrap-around.\<close>

definition checked_inc :: "uint256 \<Rightarrow> error + uint256" where
  "checked_inc x = (if x = - 1 then Inl (Panic 0x11) else Inr (x + 1))"

subsection \<open>Utility functions\<close>

text \<open>
  \<open>parseUint32\<close>: the loop reads the bytes of the string from the left and stops at the
  first byte that is not a decimal digit. \<open>result * 10\<close> and the addition are checked
  \<open>uint32\<close> operations; \<open>c - 48\<close> is a \<open>uint8\<close> that the addition widens.
\<close>

fun parseUint32_loop :: "bytes \<Rightarrow> uint32 \<Rightarrow> error + uint32" where
  "parseUint32_loop [] result = Inr result"
| "parseUint32_loop (b # bs) result =
     (let c = (of_char b :: uint8) in
      if 48 \<le> c \<and> c \<le> 57 then
        (if 2 ^ 32 \<le> unat result * 10 then Inl (Panic 0x11)
         else if 2 ^ 32 \<le> unat (result * 10) + unat (c - 48) then Inl (Panic 0x11)
         else parseUint32_loop bs (result * 10 + ucast (c - 48)))
      else Inr result)"

definition parseUint32 :: "string \<Rightarrow> error + uint32" where
  "parseUint32 s = parseUint32_loop s 0"

text \<open>\<open>findMetricKeyByHash\<close>: the first key of the list whose hash is the one asked for.\<close>

fun findMetricKeyByHash_loop :: "environment \<Rightarrow> string list \<Rightarrow> uint256 \<Rightarrow> error + string" where
  "findMetricKeyByHash_loop env [] h = Inl (Revert ''Metric key not found'')"
| "findMetricKeyByHash_loop env (k # ks) h =
     (if keccak256 env k = h then Inr k else findMetricKeyByHash_loop env ks h)"

definition findMetricKeyByHash :: "environment \<Rightarrow> contract \<Rightarrow> uint256 \<Rightarrow> error + string" where
  "findMetricKeyByHash env s h = findMetricKeyByHash_loop env (metricKeys s) h"

subsection \<open>Readings\<close>

definition submitEncryptedReading ::
  "tx_context \<Rightarrow> contract \<Rightarrow> euint32 \<Rightarrow> euint32 \<Rightarrow> euint32 \<Rightarrow> euint32 \<Rightarrow> euint32 \<Rightarrow> euint32
    \<Rightarrow> error + contract" where
  "submitEncryptedReading ctx s ts temp hum co2 light soil =
     (case checked_inc (readingCount s) of
        Inl e \<Rightarrow> Inl e
      | Inr rid \<Rightarrow>
          Inr (s\<lparr>readingCount := rid,
                 readings := (readings s)(rid := \<lparr>reading_id = rid, encryptedTimestamp = ts,
                   encryptedTemperature = temp, encryptedHumidity = hum, encryptedCO2 = co2,
                   encryptedLight = light, encryptedSoilMoisture = soil\<rparr>),
                 events := events s @ [ReadingSubmitted rid (block_timestamp ctx)]\<rparr>))"

subsection \<open>Twin updates\<close>

text \<open>
  The loop of \<open>requestTwinUpdate\<close>: iteration \<open>i\<close> reads \<open>readings[readingIds[i]]\<close>
  and writes its six handles at \<open>i * 6 .. i * 6 + 5\<close> of the array allocated before.
  The first argument list is what is left of \<open>readingIds\<close> from index \<open>i\<close> on.
\<close>

fun collectCiphertexts ::
  "environment \<Rightarrow> (uint256 \<Rightarrow> EncryptedReading) \<Rightarrow> uint256 list \<Rightarrow> nat \<Rightarrow> bytes32 list \<Rightarrow> bytes32 list" where
  "collectCiphertexts env rd [] i ciphertexts = ciphertexts"
| "collectCiphertexts env rd (rid # rest) i ciphertexts =
     (let r = rd rid; base = i * 6 in
      collectCiphertexts env rd rest (i + 1)
        (ciphertexts
          [base + 0 := FHE_toBytes32 env (encryptedTimestamp r),
           base + 1 := FHE_toBytes32 env (encryptedTemperature r),
           base + 2 := FHE_toBytes32 env (encryptedHumidity r),
           base + 3 := FHE_toBytes32 env (encryptedCO2 r),
           base + 4 := FHE_toBytes32 env (encryptedLight r),
           base + 5 := FHE_toBytes32 env (encryptedSoilMoisture r)]))"

text \<open>
  \<open>requestTwinUpdate\<close>. The modifier \<open>onlyOwnerOfTwin\<close> is the placeholder \<open>_;\<close> and
  checks nothing. An array argument of \<open>2 ^ 64\<close> elements or more is refused when the
  call is decoded, and \<open>new bytes32[](n * 6)\<close> panics beyond \<open>2 ^ 64 - 1\<close> elements.
  The contract checks nothing about the handles it has collected: whether the request
  goes through is for \<open>FHE.requestDecryption\<close> to decide.
\<close>

definition requestTwinUpdate ::
  "environment \<Rightarrow> tx_context \<Rightarrow> contract \<Rightarrow> uint256 \<Rightarrow> uint256 list \<Rightarrow> error + contract" where
  "requestTwinUpdate env ctx s twinId readingIds =
     (let n = length readingIds in
      if 2 ^ 64 \<le> n then Inl AbiDecodeFailed
      else if \<not> n > 0 then Inl (Revert ''No readings provided'')
      else if 2 ^ 64 \<le> n * 6 then Inl (Panic 0x41)
      else
        let ciphertexts = collectCiphertexts env (readings s) readingIds 0 (replicate (n * 6) 0) in
        if \<not> requestDecryption_accepts ctx ciphertexts Sel_decryptTwinUpdate
        then Inl DecryptionRequestRejected
        else
          let reqId = requestDecryption_result ctx
          in Inr (s\<lparr>decryptionRequests := decryptionRequests s @ [(reqId, ciphertexts, Sel_decryptTwinUpdate)],
                     requestToEntityId := (requestToEntityId s)(reqId := twinId),
                     requestToTag := (requestToTag s)(reqId := keccak256 env ''twin_update''),
                     events := events s @ [TwinUpdateRequested twinId reqId]\<rparr>))"

definition decryptTwinUpdate ::
  "environment \<Rightarrow> tx_context \<Rightarrow> contract \<Rightarrow> uint256 \<Rightarrow> bytes \<Rightarrow> bytes \<Rightarrow> error + contract" where
  "decryptTwinUpdate env ctx s requestId cleartexts decryptionProof =
     (let twinId = requestToEntityId s requestId in
      if \<not> twinId \<noteq> 0 then Inl (Revert ''Invalid request id'')
      else if \<not> FHE_checkSignatures env requestId cleartexts decryptionProof then Inl InvalidSignatures
      else
        case abi_decode_strings env cleartexts of
          None \<Rightarrow> Inl AbiDecodeFailed
        | Some parts \<Rightarrow>
            (case (if length parts > 1 then parseUint32 (parts ! 1) else Inr 0) of
               Inl e \<Rightarrow> Inl e
             | Inr score \<Rightarrow>
                 let s1 = s\<lparr>decryptedTwins := (decryptedTwins s)(twinId :=
                            \<lparr>stateSummary = (if length parts > 0 then parts ! 0 else []),
                             healthScore = score,
                             twin_revealed = True\<rparr>)\<rparr>
                 in
                 (case
                    (if twin_id (encryptedTwins s1 twinId) = 0 then
                       (case checked_inc (twinCount s1) of
                          Inl e \<Rightarrow> Inl e
                        | Inr c \<Rightarrow>
                            Inr (s1\<lparr>twinCount := c,
                                    encryptedTwins := (encryptedTwins s1)(twinId :=
                                      \<lparr>twin_id = twinId,
                                       encryptedStateHash = FHE_asEuint32 env 0,
                                       encryptedHealthScore = FHE_asEuint32 env 0,
                                       lastUpdated = block_timestamp ctx\<rparr>)\<rparr>))
                     else
                       Inr (s1\<lparr>encryptedTwins := (encryptedTwins s1)(twinId :=
                              (encryptedTwins s1 twinId)\<lparr>lastUpdated := block_timestamp ctx\<rparr>)\<rparr>))
                  of
                    Inl e \<Rightarrow> Inl e
                  | Inr s2 \<Rightarrow> Inr (s2\<lparr>events := events s2 @ [TwinDecrypted twinId]\<rparr>))))"

subsection \<open>Recommendations\<close>

definition submitEncryptedRecommendationRequest ::
  "environment \<Rightarrow> tx_context \<Rightarrow> contract \<Rightarrow> euint32 \<Rightarrow> euint32 \<Rightarrow> euint32 \<Rightarrow> error + contract" where
  "submitEncryptedRecommendationRequest env ctx s encWatering encNutrient encLight =
     (case checked_inc (recommendationCount s) of
        Inl e \<Rightarrow> Inl e
      | Inr rid \<Rightarrow>
          let ciphertexts = (replicate 3 0)
                [0 := FHE_toBytes32 env encWatering,
                 1 := FHE_toBytes32 env encNutrient,
                 2 := FHE_toBytes32 env encLight]
          in
          if \<not> requestDecryption_accepts ctx ciphertexts Sel_decryptRecommendation
          then Inl DecryptionRequestRejected
          else
          let reqId = requestDecryption_result ctx
          in Inr (s\<lparr>recommendationCount := rid,
                     encryptedRecommendations := (encryptedRecommendations s)(rid :=
                       \<lparr>rec_id = rid, encryptedWateringSchedule = encWatering,
                        encryptedNutrientPlan = encNutrient, encryptedLightAdjust = encLight,
                        generatedAt = block_timestamp ctx\<rparr>),
                     decryptionRequests := decryptionRequests s @ [(reqId, ciphertexts, Sel_decryptRecommendation)],
                     requestToEntityId := (requestToEntityId s)(reqId := rid),
                     requestToTag := (requestToTag s)(reqId := keccak256 env ''recommendation''),
                     events := events s @ [RecommendationRequested rid reqId]\<rparr>))"

definition decryptRecommendation ::
  "environment \<Rightarrow> contract \<Rightarrow> uint256 \<Rightarrow> bytes \<Rightarrow> bytes \<Rightarrow> error + contract" where
  "decryptRecommendation env s requestId cleartexts decryptionProof =
     (let recId = requestToEntityId s requestId in
      if \<not> recId \<noteq> 0 then Inl (Revert ''Invalid request'')
      else if \<not> FHE_checkSignatures env requestId cleartexts decryptionProof then Inl InvalidSignatures
      else
        case abi_decode_strings env cleartexts of
          None \<Rightarrow> Inl AbiDecodeFailed
        | Some items \<Rightarrow>
            Inr (s\<lparr>decryptedRecommendations := (decryptedRecommendations s)(recId :=
                      \<lparr>watering = (if length items > 0 then items ! 0 else []),
                       nutrients = (if length items > 1 then items ! 1 else []),
                       lightAdjust = (if length items > 2 then items ! 2 else []),
                       rec_revealed = True\<rparr>),
                   events := events s @ [RecommendationDecrypted recId]\<rparr>))"

subsection \<open>Aggregates\<close>

definition addEncryptedAggregate ::
  "environment \<Rightarrow> contract \<Rightarrow> string \<Rightarrow> euint32 \<Rightarrow> error + contract" where
  "addEncryptedAggregate env s key encryptedDelta =
     (let s1 = (if \<not> FHE_isInitialized env (encryptedMetricAggregates s key)
                then s\<lparr>encryptedMetricAggregates := (encryptedMetricAggregates s)(key := FHE_asEuint32 env 0),
                       metricKeys := metricKeys s @ [key]\<rparr>
                else s)
      in Inr (s1\<lparr>encryptedMetricAggregates := (encryptedMetricAggregates s1)(key :=
                   FHE_add env (encryptedMetricAggregates s1 key) encryptedDelta)\<rparr>))"

definition requestAggregateDecryption ::
  "environment \<Rightarrow> tx_context \<Rightarrow> contract \<Rightarrow> string \<Rightarrow> error + contract" where
  "requestAggregateDecryption env ctx s key =
     (let agg = encryptedMetricAggregates s key in
      if \<not> FHE_isInitialized env agg then Inl (Revert ''Metric not found'')
      else
        let ciphertexts = (replicate 1 0)[0 := FHE_toBytes32 env agg] in
        if \<not> requestDecryption_accepts ctx ciphertexts Sel_decryptAggregate
        then Inl DecryptionRequestRejected
        else
        let reqId = requestDecryption_result ctx
        in Inr (s\<lparr>decryptionRequests := decryptionRequests s @ [(reqId, ciphertexts, Sel_decryptAggregate)],
                   requestToEntityId := (requestToEntityId s)(reqId := keccak256 env key),
                   requestToTag := (requestToTag s)(reqId := keccak256 env ''aggregate'')\<rparr>))"

definition emitPlainAggregateResult :: "contract \<Rightarrow> string \<Rightarrow> uint32 \<Rightarrow> contract" where
  "emitPlainAggregateResult s key v = s\<lparr>events := events s @ [PlainAggregateResult key v]\<rparr>"

definition decryptAggregate ::
  "environment \<Rightarrow> contract \<Rightarrow> uint256 \<Rightarrow> bytes \<Rightarrow> bytes \<Rightarrow> error + contract" where
  "decryptAggregate env s requestId cleartexts decryptionProof =
     (if \<not> FHE_checkSignatures env requestId cleartexts decryptionProof then Inl InvalidSignatures
      else
        let keyHash = requestToEntityId s requestId in
        case findMetricKeyByHash env s keyHash of
          Inl e \<Rightarrow> Inl e
        | Inr key \<Rightarrow>
            (case abi_decode_uint32 env cleartexts of
               None \<Rightarrow> Inl AbiDecodeFailed
             | Some v \<Rightarrow> Inr (emitPlainAggregateResult s key v)))"

subsection \<open>View helpers\<close>

definition getEncryptedMetric :: "contract \<Rightarrow> string \<Rightarrow> euint32" where
  "getEncryptedMetric s key = encryptedMetricAggregates s key"

definition getDecryptedTwin :: "contract \<Rightarrow> uint256 \<Rightarrow> string \<times> uint32 \<times> bool" where
  "getDecryptedTwin s twinId =
     (let d = decryptedTwins s twinId in (stateSummary d, healthScore d, twin_revealed d))"

definition getDecryptedRecommendation :: "contract \<Rightarrow> uint256 \<Rightarrow> string \<times> string \<times> string \<times> bool" where
  "getDecryptedRecommendation s recId =
     (let r = decryptedRecommendations s recId in (watering r, nutrients r, lightAdjust r, rec_revealed r))"

subsection \<open>Transactions\<close>

text \<open>
  The public functions as one type of calls, and what a transaction does to the state:
  a call that reverts leaves the state as it was.
\<close>

datatype call =
  SubmitEncryptedReading euint32 euint32 euint32 euint32 euint32 euint32
| RequestTwinUpdate uint256 "uint256 list"
| DecryptTwinUpdate uint256 bytes bytes
| SubmitEncryptedRecommendationRequest euint32 euint32 euint32
| DecryptRecommendation uint256 bytes bytes
| AddEncryptedAggregate string euint32
| RequestAggregateDecryption string
| DecryptAggregate uint256 bytes bytes

fun execute :: "environment \<Rightarrow> tx_context \<Rightarrow> contract \<Rightarrow> call \<Rightarrow> error + contract" where
  "execute env ctx s (SubmitEncryptedReading a b c d e f) = submitEncryptedReading ctx s a b c d e f"
| "execute env ctx s (RequestTwinUpdate twinId readingIds) = requestTwinUpdate env ctx s twinId readingIds"
| "execute env ctx s (DecryptTwinUpdate r c p) = decryptTwinUpdate env ctx s r c p"
| "execute env ctx s (SubmitEncryptedRecommendationRequest a b c) =
     submitEncryptedRecommendationRequest env ctx s a b c"
| "execute env ctx s (DecryptRecommendation r c p) = decryptRecommendation env s r c p"
| "execute env ctx s (AddEncryptedAggregate key d) = addEncryptedAggregate env s key d"
| "execute env ctx s (RequestAggregateDecryption key) = requestAggregateDecryption env ctx s key"
| "execute env ctx s (DecryptAggregate r c p) = decryptAggregate env s r c p"

definition transact :: "environment \<Rightarrow> contract \<Rightarrow> tx_context \<times> call \<Rightarrow> contract" where
  "transact env s t = (case execute env (fst t) s (snd t) of Inl e \<Rightarrow> s | Inr s' \<Rightarrow> s')"

fun run :: "environment \<Rightarrow> contract \<Rightarrow> (tx_context \<times> call) list \<Rightarrow> contract" where
  "run env s [] = s"
| "run env s (t # ts) = run env (transact env s t) ts"

subsection \<open>Properties of states\<close>

text \<open>
  \<open>twinCount\<close> counts the twins that have an encrypted record, and twin \<open>0\<close> never
  has one. A reading slot above \<open>readingCount\<close>, and slot \<open>0\<close>, was never written.
  A key is on the list \<open>metricKeys\<close> once, and exactly when its accumulator is
  initialized.
\<close>

definition twin_inv :: "contract \<Rightarrow> bool" where
  "twin_inv s =
     (unat (twinCount s) = card {i. twin_id (encryptedTwins s i) \<noteq> 0} \<and>
      twin_id (encryptedTwins s 0) = 0)"

definition unwritten :: "contract \<Rightarrow> uint256 \<Rightarrow> bool" where
  "unwritten s rid = (rid = 0 \<or> readingCount s < rid)"

definition reading_inv :: "contract \<Rightarrow> bool" where
  "reading_inv s = (\<forall>rid. unwritten s rid \<longrightarrow> readings s rid = default_reading)"

definition agg_inv :: "environment \<Rightarrow> contract \<Rightarrow> bool" where
  "agg_inv env s =
     (distinct (metricKeys s) \<and>
      (\<forall>k. (k \<in> set (metricKeys s)) = FHE_isInitialized env (encryptedMetricAggregates s k)))"

text \<open>What the library is relied on for: a handle that \<open>FHE.add\<close> returns is initialized,
  and the default handle of an empty mapping slot is not.\<close>

definition handles_ok :: "environment \<Rightarrow> bool" where
  "handles_ok env =
     ((\<forall>a b. FHE_isInitialized env (FHE_add env a b)) \<and> \<not> FHE_isInitialized env 0)"

text \<open>The deltas that the calls of \<open>addEncryptedAggregate\<close> in a list of transactions
  add to one key, in the order of the calls.\<close>

fun deltas_of :: "string \<Rightarrow> (tx_context \<times> call) list \<Rightarrow> euint32 list" where
  "deltas_of key [] = []"
| "deltas_of key ((ctx, AddEncryptedAggregate k d) # ts) =
     (if k = key then d # deltas_of key ts else deltas_of key ts)"
| "deltas_of key (t # ts) = deltas_of key ts"

text \<open>The six handles of a reading, as the loop of \<open>requestTwinUpdate\<close> lays them out.\<close>

definition handles_of :: "environment \<Rightarrow> EncryptedReading \<Rightarrow> bytes32 list" where
  "handles_of env r =
     [FHE_toBytes32 env (encryptedTimestamp r), FHE_toBytes32 env (encryptedTemperature r),
      FHE_toBytes32 env (encryptedHumidity r), FHE_toBytes32 env (encryptedCO2 r),
      FHE_toBytes32 env (encryptedLight r), FHE_toBytes32 env (encryptedSoilMoisture r)]"

subsection \<open>A small environment to run the contract in\<close>

text \<open>
  Stand-ins for the library and the built-ins, simple enough to compute with: a handle
  is any odd word or the result of an addition, a proof is valid when it is the
  fixed byte string below, a list of strings is encoded with each string followed by
  \<open>;\<close>, a \<open>uint32\<close> as four bytes, and the hash is a polynomial in the bytes. The
  library refuses a decryption request that contains the zero handle, which nobody can
  have been allowed to decrypt, and accepts every other.
\<close>

fun test_split :: "string \<Rightarrow> string \<Rightarrow> string list" where
  "test_split [] cur = []"
| "test_split (c # cs) cur =
     (if c = CHR '';'' then rev cur # test_split cs [] else test_split cs (c # cur))"

definition test_decode_uint32 :: "bytes \<Rightarrow> uint32 option" where
  "test_decode_uint32 bs =
     (case bs of
        [a, b, c, d] \<Rightarrow> Some (of_char a * 2 ^ 24 + of_char b * 2 ^ 16 + of_char c * 2 ^ 8 + of_char d)
      | _ \<Rightarrow> None)"

definition test_hash :: "bytes \<Rightarrow> bytes32" where
  "test_hash bs = foldl (\<lambda>h c. h * 31 + of_char c + 1) 7 bs"

definition test_env :: environment where
  "test_env =
     \<lparr>FHE_asEuint32 = (\<lambda>v. ucast v * 2 + 1),
      FHE_add = (\<lambda>a b. or (a + b) 1),
      FHE_isInitialized = (\<lambda>h. h \<noteq> 0),
      FHE_toBytes32 = (\<lambda>h. h),
      FHE_checkSignatures = (\<lambda>r c p. p = ''attested''),
      keccak256 = test_hash,
      abi_decode_strings = (\<lambda>c. Some (test_split c [])),
      abi_decode_uint32 = test_decode_uint32\<rparr>"

definition test_ctx :: "uint256 \<Rightarrow> tx_context" where
  "test_ctx r = \<lparr>block_timestamp = 1700000000, requestDecryption_result = r,
                  requestDecryption_accepts = (\<lambda>ciphertexts sel. 0 \<notin> set ciphertexts)\<rparr>"

text \<open>The same with a library that lets every request through.\<close>

definition lenient_ctx :: "uint256 \<Rightarrow> tx_context" where
  "lenient_ctx r = (test_ctx r)\<lparr>requestDecryption_accepts := (\<lambda>ciphertexts sel. True)\<rparr>"

text \<open>
  Three readings are submitted and an update of twin \<open>1\<close> is requested from them (the
  oracle hands out the request identifier \<open>7\<close>); a recommendation is requested
  (identifier \<open>8\<close>); two deltas are added to the aggregate \<open>total_water\<close> and its
  decryption is requested (identifier \<open>9\<close>).
\<close>

definition test_submissions :: "(tx_context \<times> call) list" where
  "test_submissions =
     [(test_ctx 0, SubmitEncryptedReading 11 13 15 17 19 21),
      (test_ctx 0, SubmitEncryptedReading 23 25 27 29 31 33),
      (test_ctx 0, SubmitEncryptedReading 35 37 39 41 43 45)]"

definition test_txs :: "(tx_context \<times> call) list" where
  "test_txs =
     test_submissions @
     [(test_ctx 7, RequestTwinUpdate 1 [1, 2, 3]),
      (test_ctx 8, SubmitEncryptedRecommendationRequest 51 53 55),
      (test_ctx 0, AddEncryptedAggregate ''total_water'' 61),
      (test_ctx 0, AddEncryptedAggregate ''total_water'' 63),
      (test_ctx 9, RequestAggregateDecryption ''total_water'')]"

definition test_state :: contract where
  "test_state = run test_env init_state test_txs"



section \<open>The ciphertexts of a request\<close>

text \<open>The loop of \<open>requestTwinUpdate\<close> fills the array with the handles of the readings,
  six for each identifier, in the order of the identifiers.\<close>

lemma take_update6:
  assumes "n + 6 \<le> length xs"
  shows "take (n + 6) (xs[n := a, n + 1 := b, n + 2 := c, n + 3 := d, n + 4 := e, n + 5 := f]) =
         take n xs @ [a, b, c, d, e, f]"
  using assms
proof (induction n arbitrary: xs)
  case 0
  then have "Suc (Suc (Suc (Suc (Suc (Suc 0))))) \<le> length xs"
    by simp
  then obtain x0 x1 x2 x3 x4 x5 rest where "xs = x0 # x1 # x2 # x3 # x4 # x5 # rest"
    by (auto simp: Suc_le_length_iff)
  then show ?case
    by (simp add: numeral_eq_Suc)
next
  case (Suc n)
  then obtain x xs' where xs: "xs = x # xs'"
    by (cases xs) auto
  with Suc.prems have "n + 6 \<le> length xs'"
    by simp
  from Suc.IH [OF this] show ?case
    by (simp add: xs numeral_eq_Suc)
qed

lemma collectCiphertexts_eq:
  assumes "length cts = (i + length ids) * 6"
  shows "collectCiphertexts env rd ids i cts =
         take (i * 6) cts @ concat (map (\<lambda>rid. handles_of env (rd rid)) ids)"
  using assms
proof (induction ids arbitrary: i cts)
  case Nil
  then show ?case by simp
next
  case (Cons rid rest)
  let ?r = "rd rid"
  let ?cts = "cts[i * 6 := FHE_toBytes32 env (encryptedTimestamp ?r),
                  i * 6 + 1 := FHE_toBytes32 env (encryptedTemperature ?r),
                  i * 6 + 2 := FHE_toBytes32 env (encryptedHumidity ?r),
                  i * 6 + 3 := FHE_toBytes32 env (encryptedCO2 ?r),
                  i * 6 + 4 := FHE_toBytes32 env (encryptedLight ?r),
                  i * 6 + 5 := FHE_toBytes32 env (encryptedSoilMoisture ?r)]"
  have len: "length ?cts = (i + 1 + length rest) * 6"
    using Cons.prems by simp
  have room: "i * 6 + 6 \<le> length cts"
    using Cons.prems by simp
  have "collectCiphertexts env rd (rid # rest) i cts = collectCiphertexts env rd rest (i + 1) ?cts"
    by (simp add: Let_def)
  also have "\<dots> = take ((i + 1) * 6) ?cts @ concat (map (\<lambda>rid. handles_of env (rd rid)) rest)"
    by (rule Cons.IH [OF len])
  also have "take ((i + 1) * 6) ?cts = take (i * 6) cts @ handles_of env ?r"
    using take_update6 [OF room] by (simp add: handles_of_def add.commute)
  finally show ?case
    by simp
qed

lemma requestTwinUpdate_eq:
  "requestTwinUpdate env ctx s twinId readingIds =
     (if 2 ^ 64 \<le> length readingIds then Inl AbiDecodeFailed
      else if readingIds = [] then Inl (Revert ''No readings provided'')
      else if 2 ^ 64 \<le> length readingIds * 6 then Inl (Panic 0x41)
      else if \<not> requestDecryption_accepts ctx
                 (concat (map (\<lambda>rid. handles_of env (readings s rid)) readingIds)) Sel_decryptTwinUpdate
      then Inl DecryptionRequestRejected
      else Inr (s\<lparr>decryptionRequests := decryptionRequests s @
                    [(requestDecryption_result ctx,
                      concat (map (\<lambda>rid. handles_of env (readings s rid)) readingIds),
                      Sel_decryptTwinUpdate)],
                  requestToEntityId := (requestToEntityId s)(requestDecryption_result ctx := twinId),
                  requestToTag := (requestToTag s)(requestDecryption_result ctx := keccak256 env ''twin_update''),
                  events := events s @ [TwinUpdateRequested twinId (requestDecryption_result ctx)]\<rparr>))"
proof -
  have "collectCiphertexts env (readings s) readingIds 0 (replicate (length readingIds * 6) 0) =
      concat (map (\<lambda>rid. handles_of env (readings s rid)) readingIds)"
    by (simp add: collectCiphertexts_eq)
  then show ?thesis
    by (simp add: requestTwinUpdate_def Let_def)
qed

lemma small_arrays:
  "(replicate 3 0)[0 := a, Suc 0 := b, 2 := c] = [a, b, c]"
  "(replicate 1 0)[0 := a] = [a]"
  by (simp_all add: numeral_eq_Suc)

section \<open>Invariants of the reachable states\<close>

subsection \<open>The twin counter cannot overflow\<close>

lemma unat_inc:
  assumes "x \<noteq> (- 1 :: uint256)"
  shows "unat (x + 1) = Suc (unat x)"
proof -
  have "1 + x \<noteq> 0"
    using assms by (simp add: add.commute eq_neg_iff_add_eq_0)
  then show ?thesis
    using unatSuc [of x] by (simp add: add.commute)
qed

lemma twinCount_not_max:
  assumes "twin_inv s" "twinId \<noteq> 0" "twin_id (encryptedTwins s twinId) = 0"
  shows "twinCount s \<noteq> - 1"
proof
  assume m: "twinCount s = - 1"
  define N :: nat where "N = card (UNIV :: uint256 set)"
  let ?T = "{i. twin_id (encryptedTwins s i) \<noteq> 0}"
  have sub: "?T \<subseteq> UNIV - {0, twinId}"
    using assms by (auto simp: twin_inv_def)
  have "card ?T \<le> card (UNIV - {0, twinId} :: uint256 set)"
    by (rule card_mono[OF _ sub]) simp
  also have "\<dots> = N - 2"
    using assms(2) by (simp add: card_Diff_subset N_def)
  finally have le: "card ?T \<le> N - 2" .
  have "unat (- 1 :: uint256) = N - 1"
    unfolding N_def card_word by (simp add: unsigned_minus_1_eq_mask mask_eq_exp_minus_1)
  then have eq: "card ?T = N - 1"
    using assms(1) m by (simp add: twin_inv_def)
  have "2 \<le> N"
    unfolding N_def card_word by simp
  with le eq show False by linarith
qed

lemma twin_inv_init: "twin_inv init_state"
  by (simp add: twin_inv_def init_state_def default_twin_def)

lemma twin_inv_decryptTwinUpdate:
  assumes "twin_inv s" "decryptTwinUpdate env ctx s r c p = Inr s'"
  shows "twin_inv s'"
proof -
  let ?t = "requestToEntityId s r"
  show ?thesis
  proof (cases "twin_id (encryptedTwins s ?t) = 0")
    case True
    from assms(2) have nz: "?t \<noteq> 0"
      by (auto simp: decryptTwinUpdate_def Let_def split: if_splits)
    from assms(2) True nz
    have tc: "twinCount s' = twinCount s + 1" "twinCount s \<noteq> - 1"
      and et: "\<And>i. twin_id (encryptedTwins s' i) = (if i = ?t then ?t else twin_id (encryptedTwins s i))"
      by (auto simp: decryptTwinUpdate_def Let_def checked_inc_def
          split: if_splits option.splits sum.splits)
    have "{i. twin_id (encryptedTwins s' i) \<noteq> 0} = insert ?t {i. twin_id (encryptedTwins s i) \<noteq> 0}"
      using nz by (auto simp: et)
    moreover have "?t \<notin> {i. twin_id (encryptedTwins s i) \<noteq> 0}"
      using True by simp
    ultimately have "card {i. twin_id (encryptedTwins s' i) \<noteq> 0} =
        Suc (card {i. twin_id (encryptedTwins s i) \<noteq> 0})"
      by simp
    then show ?thesis
      using assms(1) tc nz et by (simp add: twin_inv_def unat_inc)
  next
    case False
    from assms(2) False
    have "twinCount s' = twinCount s"
      and "\<And>i. twin_id (encryptedTwins s' i) = twin_id (encryptedTwins s i)"
      by (auto simp: decryptTwinUpdate_def Let_def checked_inc_def
          split: if_splits option.splits sum.splits)
    then show ?thesis
      using assms(1) by (simp add: twin_inv_def)
  qed
qed

lemma twins_frame:
  assumes "execute env ctx s c = Inr s'" "\<And>r cl p. c \<noteq> DecryptTwinUpdate r cl p"
  shows "twinCount s' = twinCount s \<and> encryptedTwins s' = encryptedTwins s"
proof (cases c)
  case (SubmitEncryptedReading a b c d e f)
  with assms(1) show ?thesis
    by (auto simp: submitEncryptedReading_def split: sum.splits)
next
  case (RequestTwinUpdate t ids)
  with assms(1) show ?thesis
    by (auto simp: requestTwinUpdate_def Let_def split: if_splits)
next
  case (DecryptTwinUpdate r cl p)
  with assms(2) show ?thesis by blast
next
  case (SubmitEncryptedRecommendationRequest a b c)
  with assms(1) show ?thesis
    by (auto simp: submitEncryptedRecommendationRequest_def Let_def split: sum.splits if_splits)
next
  case (DecryptRecommendation r cl p)
  with assms(1) show ?thesis
    by (auto simp: decryptRecommendation_def Let_def split: if_splits option.splits)
next
  case (AddEncryptedAggregate k d)
  with assms(1) show ?thesis
    by (auto simp: addEncryptedAggregate_def Let_def)
next
  case (RequestAggregateDecryption k)
  with assms(1) show ?thesis
    by (auto simp: requestAggregateDecryption_def Let_def split: if_splits)
next
  case (DecryptAggregate r cl p)
  with assms(1) show ?thesis
    by (auto simp: decryptAggregate_def emitPlainAggregateResult_def Let_def
        split: if_splits option.splits sum.splits)
qed

lemma twin_inv_transact:
  assumes "twin_inv s"
  shows "twin_inv (transact env s t)"
proof (cases "execute env (fst t) s (snd t)")
  case (Inl e)
  then show ?thesis using assms by (simp add: transact_def)
next
  case (Inr s')
  have "twin_inv s'"
  proof (cases "\<exists>r cl p. snd t = DecryptTwinUpdate r cl p")
    case True
    then show ?thesis
      using Inr assms twin_inv_decryptTwinUpdate by auto
  next
    case False
    then have "twinCount s' = twinCount s \<and> encryptedTwins s' = encryptedTwins s"
      using twins_frame [OF Inr] by blast
    then show ?thesis using assms by (simp add: twin_inv_def)
  qed
  then show ?thesis using Inr by (simp add: transact_def)
qed

lemma run_append: "run env s (ts @ us) = run env (run env s ts) us"
  by (induction ts arbitrary: s) simp_all

lemma twin_inv_run: "twin_inv s \<Longrightarrow> twin_inv (run env s ts)"
  by (induction ts arbitrary: s) (simp_all add: twin_inv_transact)

subsection \<open>Reading slots that were never written\<close>

lemma reading_inv_init: "reading_inv init_state"
  by (simp add: reading_inv_def init_state_def)

lemma less_inc: "x \<noteq> (- 1 :: uint256) \<Longrightarrow> x + 1 < rid \<Longrightarrow> x < rid"
  by (simp add: word_less_nat_alt unat_inc)

lemma inc_not_zero: "x \<noteq> (- 1 :: uint256) \<Longrightarrow> x + 1 \<noteq> 0"
  by (simp add: eq_neg_iff_add_eq_0)

lemma reading_inv_submit:
  assumes "reading_inv s" "submitEncryptedReading ctx s a b c d e f = Inr s'"
  shows "reading_inv s'"
proof -
  from assms(2) have nm: "readingCount s \<noteq> - 1"
    and rc: "readingCount s' = readingCount s + 1"
    and rd: "readings s' = (readings s)(readingCount s + 1 := readings s' (readingCount s + 1))"
    by (auto simp: submitEncryptedReading_def checked_inc_def split: if_splits)
  show ?thesis
    unfolding reading_inv_def unwritten_def
  proof (intro allI impI)
    fix rid assume h: "rid = 0 \<or> readingCount s' < rid"
    have ne: "rid \<noteq> readingCount s + 1"
      using h nm rc inc_not_zero by auto
    have "rid = 0 \<or> readingCount s < rid"
      using h rc nm less_inc by auto
    then have "readings s rid = default_reading"
      using assms(1) by (auto simp: reading_inv_def unwritten_def)
    then show "readings s' rid = default_reading"
      using ne rd by (metis fun_upd_other)
  qed
qed

lemma readings_frame:
  assumes "execute env ctx s c = Inr s'" "\<And>a b c' d e f. c \<noteq> SubmitEncryptedReading a b c' d e f"
  shows "readingCount s' = readingCount s \<and> readings s' = readings s"
proof (cases c)
  case (SubmitEncryptedReading a b c d e f)
  with assms(2) show ?thesis by blast
next
  case (RequestTwinUpdate t ids)
  with assms(1) show ?thesis
    by (auto simp: requestTwinUpdate_def Let_def split: if_splits)
next
  case (DecryptTwinUpdate r cl p)
  with assms(1) show ?thesis
    by (auto simp: decryptTwinUpdate_def Let_def checked_inc_def
        split: if_splits option.splits sum.splits)
next
  case (SubmitEncryptedRecommendationRequest a b c)
  with assms(1) show ?thesis
    by (auto simp: submitEncryptedRecommendationRequest_def Let_def split: sum.splits if_splits)
next
  case (DecryptRecommendation r cl p)
  with assms(1) show ?thesis
    by (auto simp: decryptRecommendation_def Let_def split: if_splits option.splits)
next
  case (AddEncryptedAggregate k d)
  with assms(1) show ?thesis
    by (auto simp: addEncryptedAggregate_def Let_def)
next
  case (RequestAggregateDecryption k)
  with assms(1) show ?thesis
    by (auto simp: requestAggregateDecryption_def Let_def split: if_splits)
next
  case (DecryptAggregate r cl p)
  with assms(1) show ?thesis
    by (auto simp: decryptAggregate_def emitPlainAggregateResult_def Let_def
        split: if_splits option.splits sum.splits)
qed

lemma reading_inv_transact:
  assumes "reading_inv s"
  shows "reading_inv (transact env s t)"
proof (cases "execute env (fst t) s (snd t)")
  case (Inl e)
  then show ?thesis using assms by (simp add: transact_def)
next
  case (Inr s')
  have "reading_inv s'"
  proof (cases "\<exists>a b c d e f. snd t = SubmitEncryptedReading a b c d e f")
    case True
    then show ?thesis
      using Inr assms reading_inv_submit by auto
  next
    case False
    then have "readingCount s' = readingCount s \<and> readings s' = readings s"
      using readings_frame [OF Inr] by blast
    then show ?thesis using assms by (simp add: reading_inv_def unwritten_def)
  qed
  then show ?thesis using Inr by (simp add: transact_def)
qed

lemma reading_inv_run: "reading_inv s \<Longrightarrow> reading_inv (run env s ts)"
  by (induction ts arbitrary: s) (simp_all add: reading_inv_transact)


section \<open>The test scenario, evaluated\<close>

lemmas test_defs = test_state_def test_txs_def test_submissions_def transact_def submitEncryptedReading_def
  requestTwinUpdate_eq handles_of_def small_arrays submitEncryptedRecommendationRequest_def addEncryptedAggregate_def
  requestAggregateDecryption_def init_state_def checked_inc_def test_ctx_def Let_def test_env_def
  test_hash_def or_eq_0_iff

lemma test_state_entities:
  "requestToEntityId test_state 7 = 1"
  "requestToEntityId test_state 8 = 1"
  "requestToEntityId test_state 9 = test_hash ''total_water''"
  "requestToEntityId test_state 10 = 0"
  by (simp_all add: test_defs)

lemma test_state_keys: "metricKeys test_state = [''total_water'']"
  by (simp add: test_defs)

lemma test_env_fields:
  "FHE_checkSignatures test_env r c p = (p = ''attested'')"
  "keccak256 test_env = test_hash"
  "abi_decode_strings test_env c = Some (test_split c [])"
  "abi_decode_uint32 test_env = test_decode_uint32"
  "FHE_isInitialized test_env h = (h \<noteq> 0)"
  "FHE_toBytes32 test_env h = h"
  by (simp_all add: test_env_def)


section \<open>Rejections\<close>

text \<open>
  C7. For every twin, \<open>requestTwinUpdate\<close> with an empty array of reading identifiers
  reverts with "No readings provided", and the transaction changes nothing: no
  correlator entry is written, no decryption request is issued, no event is emitted.
\<close>

theorem requestTwinUpdate_empty_rejected:
  "requestTwinUpdate env ctx s twinId [] = Inl (Revert ''No readings provided'') \<and>
   transact env s (ctx, RequestTwinUpdate twinId []) = s \<and>
   requestToEntityId (transact env s (ctx, RequestTwinUpdate twinId [])) = requestToEntityId s \<and>
   requestToTag (transact env s (ctx, RequestTwinUpdate twinId [])) = requestToTag s \<and>
   decryptionRequests (transact env s (ctx, RequestTwinUpdate twinId [])) = decryptionRequests s \<and>
   events (transact env s (ctx, RequestTwinUpdate twinId [])) = events s"
proof -
  have "requestTwinUpdate env ctx s twinId [] = Inl (Revert ''No readings provided'')"
    by (simp add: requestTwinUpdate_def)
  then show ?thesis
    by (simp add: transact_def)
qed


lemma findMetricKeyByHash_loop_Inr:
  "findMetricKeyByHash_loop env ks h = Inr k \<Longrightarrow> k \<in> set ks \<and> keccak256 env k = h"
  by (induction ks) (auto split: if_splits)




section \<open>The aggregate callback\<close>

text \<open>
  C9. When \<open>decryptAggregate\<close> succeeds, the state after it is the state before it with
  one more event, \<open>PlainAggregateResult\<close>, carrying the key found for the request and the
  decoded value: nothing in storage is written. (When it reverts, nothing changes at all.)
\<close>

theorem decryptAggregate_only_emits:
  assumes "decryptAggregate env s r c p = Inr s'"
  shows "\<exists>key v. findMetricKeyByHash env s (requestToEntityId s r) = Inr key \<and>
           abi_decode_uint32 env c = Some v \<and>
           s' = s\<lparr>events := events s @ [PlainAggregateResult key v]\<rparr>"
  using assms
  by (auto simp: decryptAggregate_def emitPlainAggregateResult_def Let_def
      split: if_splits sum.splits option.splits)

theorem decryptAggregate_only_emits_witness:
  "decryptAggregate test_env test_state 9 [CHR 0x00, CHR 0x00, CHR 0x00, CHR 0x2A] ''attested'' =
     Inr (test_state\<lparr>events := events test_state @ [PlainAggregateResult ''total_water'' 42]\<rparr>) \<and>
   findMetricKeyByHash test_env test_state (requestToEntityId test_state 9) = Inr ''total_water'' \<and>
   abi_decode_uint32 test_env [CHR 0x00, CHR 0x00, CHR 0x00, CHR 0x2A] = Some 42"
proof -
  let ?c = "[CHR 0x00, CHR 0x00, CHR 0x00, CHR 0x2A]"
  let ?s' = "test_state\<lparr>events := events test_state @ [PlainAggregateResult ''total_water'' 42]\<rparr>"
  have h: "decryptAggregate test_env test_state 9 ?c ''attested'' = Inr ?s'"
    by (simp add: decryptAggregate_def findMetricKeyByHash_def test_state_entities test_state_keys
        test_env_fields emitPlainAggregateResult_def test_decode_uint32_def)
  from decryptAggregate_only_emits [OF h] obtain key v where
    k: "findMetricKeyByHash test_env test_state (requestToEntityId test_state 9) = Inr key"
    and v: "abi_decode_uint32 test_env ?c = Some v"
    and e: "?s' = test_state\<lparr>events := events test_state @ [PlainAggregateResult key v]\<rparr>"
    by blast
  from e have "events ?s' = events (test_state\<lparr>events := events test_state @ [PlainAggregateResult key v]\<rparr>)"
    by (rule arg_cong)
  then have "key = ''total_water'' \<and> v = 42"
    by simp
  with h k v show ?thesis
    by simp
qed


section \<open>The order of the steps of a callback\<close>

text \<open>
  C3, as the code has it. \<open>decryptTwinUpdate\<close> and \<open>decryptRecommendation\<close> resolve the
  request first and revert on the sentinel whatever the proof is; then they check the
  proof and revert if it is rejected, whatever the cleartexts are; then they decode, write
  the decrypted view and emit the event last. \<open>decryptAggregate\<close> checks the proof first
  and reverts if it is rejected, whatever the correlator holds; then it resolves the
  request and looks the key up, decodes, and emits its event without writing. A callback
  that succeeds has had its proof accepted.
\<close>

theorem callback_order:
  "(requestToEntityId s r = 0 \<longrightarrow>
      decryptTwinUpdate env ctx s r c p = Inl (Revert ''Invalid request id'') \<and>
      decryptRecommendation env s r c p = Inl (Revert ''Invalid request'')) \<and>
   (requestToEntityId s r \<noteq> 0 \<and> \<not> FHE_checkSignatures env r c p \<longrightarrow>
      decryptTwinUpdate env ctx s r c p = Inl InvalidSignatures \<and>
      decryptRecommendation env s r c p = Inl InvalidSignatures) \<and>
   (requestToEntityId s r \<noteq> 0 \<and> FHE_checkSignatures env r c p \<and> abi_decode_strings env c = None \<longrightarrow>
      decryptTwinUpdate env ctx s r c p = Inl AbiDecodeFailed \<and>
      decryptRecommendation env s r c p = Inl AbiDecodeFailed) \<and>
   (\<forall>s'. decryptTwinUpdate env ctx s r c p = Inr s' \<longrightarrow>
      requestToEntityId s r \<noteq> 0 \<and> FHE_checkSignatures env r c p \<and>
      (\<exists>parts. abi_decode_strings env c = Some parts \<and>
         stateSummary (decryptedTwins s' (requestToEntityId s r)) = (if parts = [] then [] else parts ! 0)) \<and>
      twin_revealed (decryptedTwins s' (requestToEntityId s r)) \<and>
      events s' = events s @ [TwinDecrypted (requestToEntityId s r)]) \<and>
   (\<forall>s'. decryptRecommendation env s r c p = Inr s' \<longrightarrow>
      requestToEntityId s r \<noteq> 0 \<and> FHE_checkSignatures env r c p \<and>
      (\<exists>items. abi_decode_strings env c = Some items \<and>
         watering (decryptedRecommendations s' (requestToEntityId s r)) = (if items = [] then [] else items ! 0)) \<and>
      rec_revealed (decryptedRecommendations s' (requestToEntityId s r)) \<and>
      events s' = events s @ [RecommendationDecrypted (requestToEntityId s r)]) \<and>
   (\<not> FHE_checkSignatures env r c p \<longrightarrow> decryptAggregate env s r c p = Inl InvalidSignatures) \<and>
   (\<forall>e. FHE_checkSignatures env r c p \<and> findMetricKeyByHash env s (requestToEntityId s r) = Inl e \<longrightarrow>
      decryptAggregate env s r c p = Inl e) \<and>
   (\<forall>key. FHE_checkSignatures env r c p \<and> findMetricKeyByHash env s (requestToEntityId s r) = Inr key \<and>
      abi_decode_uint32 env c = None \<longrightarrow> decryptAggregate env s r c p = Inl AbiDecodeFailed) \<and>
   (\<forall>s'. decryptAggregate env s r c p = Inr s' \<longrightarrow>
      FHE_checkSignatures env r c p \<and>
      (\<exists>key v. findMetricKeyByHash env s (requestToEntityId s r) = Inr key \<and>
         abi_decode_uint32 env c = Some v \<and>
         s' = s\<lparr>events := events s @ [PlainAggregateResult key v]\<rparr>))"
proof -
  have twin_fail: "requestToEntityId s r = 0 \<longrightarrow>
      decryptTwinUpdate env ctx s r c p = Inl (Revert ''Invalid request id'')"
    "requestToEntityId s r \<noteq> 0 \<and> \<not> FHE_checkSignatures env r c p \<longrightarrow>
      decryptTwinUpdate env ctx s r c p = Inl InvalidSignatures"
    "requestToEntityId s r \<noteq> 0 \<and> FHE_checkSignatures env r c p \<and> abi_decode_strings env c = None \<longrightarrow>
      decryptTwinUpdate env ctx s r c p = Inl AbiDecodeFailed"
    by (simp_all add: decryptTwinUpdate_def)
  have rec_fail: "requestToEntityId s r = 0 \<longrightarrow>
      decryptRecommendation env s r c p = Inl (Revert ''Invalid request'')"
    "requestToEntityId s r \<noteq> 0 \<and> \<not> FHE_checkSignatures env r c p \<longrightarrow>
      decryptRecommendation env s r c p = Inl InvalidSignatures"
    "requestToEntityId s r \<noteq> 0 \<and> FHE_checkSignatures env r c p \<and> abi_decode_strings env c = None \<longrightarrow>
      decryptRecommendation env s r c p = Inl AbiDecodeFailed"
    by (simp_all add: decryptRecommendation_def)
  have twin_ok: "\<forall>s'. decryptTwinUpdate env ctx s r c p = Inr s' \<longrightarrow>
      requestToEntityId s r \<noteq> 0 \<and> FHE_checkSignatures env r c p \<and>
      (\<exists>parts. abi_decode_strings env c = Some parts \<and>
         stateSummary (decryptedTwins s' (requestToEntityId s r)) = (if parts = [] then [] else parts ! 0)) \<and>
      twin_revealed (decryptedTwins s' (requestToEntityId s r)) \<and>
      events s' = events s @ [TwinDecrypted (requestToEntityId s r)]"
    by (auto simp: decryptTwinUpdate_def Let_def checked_inc_def
        split: if_splits option.splits sum.splits)
  have rec_ok: "\<forall>s'. decryptRecommendation env s r c p = Inr s' \<longrightarrow>
      requestToEntityId s r \<noteq> 0 \<and> FHE_checkSignatures env r c p \<and>
      (\<exists>items. abi_decode_strings env c = Some items \<and>
         watering (decryptedRecommendations s' (requestToEntityId s r)) = (if items = [] then [] else items ! 0)) \<and>
      rec_revealed (decryptedRecommendations s' (requestToEntityId s r)) \<and>
      events s' = events s @ [RecommendationDecrypted (requestToEntityId s r)]"
    by (auto simp: decryptRecommendation_def Let_def split: if_splits option.splits)
  have agg_fail: "\<not> FHE_checkSignatures env r c p \<longrightarrow> decryptAggregate env s r c p = Inl InvalidSignatures"
    "\<forall>e. FHE_checkSignatures env r c p \<and> findMetricKeyByHash env s (requestToEntityId s r) = Inl e \<longrightarrow>
      decryptAggregate env s r c p = Inl e"
    "\<forall>key. FHE_checkSignatures env r c p \<and> findMetricKeyByHash env s (requestToEntityId s r) = Inr key \<and>
      abi_decode_uint32 env c = None \<longrightarrow> decryptAggregate env s r c p = Inl AbiDecodeFailed"
    by (simp_all add: decryptAggregate_def)
  have agg_ok: "\<forall>s'. decryptAggregate env s r c p = Inr s' \<longrightarrow>
      FHE_checkSignatures env r c p \<and>
      (\<exists>key v. findMetricKeyByHash env s (requestToEntityId s r) = Inr key \<and>
         abi_decode_uint32 env c = Some v \<and>
         s' = s\<lparr>events := events s @ [PlainAggregateResult key v]\<rparr>)"
    by (auto simp: decryptAggregate_def emitPlainAggregateResult_def Let_def
        split: if_splits sum.splits option.splits)
  from twin_fail rec_fail twin_ok rec_ok agg_fail agg_ok show ?thesis
    by blast
qed

text \<open>
  The claim as the specification states it fails for \<open>decryptAggregate\<close>: on a request
  identifier that was never registered and a proof that is rejected, the twin callback
  stops at the correlator, the aggregate callback at the proof; and with an accepted
  proof the aggregate callback goes on to the key lookup.
\<close>

theorem decryptAggregate_verifies_first:
  "requestToEntityId init_state 3 = 0 \<and>
   \<not> FHE_checkSignatures test_env 3 [] ''forged'' \<and>
   decryptTwinUpdate test_env (test_ctx 0) init_state 3 [] ''forged'' = Inl (Revert ''Invalid request id'') \<and>
   decryptRecommendation test_env init_state 3 [] ''forged'' = Inl (Revert ''Invalid request'') \<and>
   decryptAggregate test_env init_state 3 [] ''forged'' = Inl InvalidSignatures \<and>
   decryptAggregate test_env init_state 3 [] ''attested'' = Inl (Revert ''Metric key not found'')"
  by (simp add: decryptTwinUpdate_def decryptRecommendation_def decryptAggregate_def
      findMetricKeyByHash_def test_env_fields)
    (simp add: init_state_def)


section \<open>A twin callback that succeeds\<close>

lemma decryptTwinUpdate_Inr:
  assumes nz: "requestToEntityId s r \<noteq> 0"
    and ok: "FHE_checkSignatures env r c p"
    and dec: "abi_decode_strings env c = Some parts"
    and sc: "(if length parts > 1 then parseUint32 (parts ! 1) else Inr 0) = Inr score"
    and room: "twin_id (encryptedTwins s (requestToEntityId s r)) = 0 \<longrightarrow> twinCount s \<noteq> - 1"
  shows "\<exists>s'. decryptTwinUpdate env ctx s r c p = Inr s' \<and>
           decryptedTwins s' = (decryptedTwins s)(requestToEntityId s r :=
             \<lparr>stateSummary = (if length parts > 0 then parts ! 0 else []),
              healthScore = score, twin_revealed = True\<rparr>) \<and>
           events s' = events s @ [TwinDecrypted (requestToEntityId s r)] \<and>
           requestToEntityId s' = requestToEntityId s \<and>
           requestToTag s' = requestToTag s \<and>
           twin_id (encryptedTwins s' (requestToEntityId s r)) \<noteq> 0"
proof (cases "twin_id (encryptedTwins s (requestToEntityId s r)) = 0")
  case True
  with room have "twinCount s \<noteq> - 1" by simp
  with True nz ok dec sc show ?thesis
    by (simp add: decryptTwinUpdate_def Let_def checked_inc_def)
next
  case False
  with nz ok dec sc show ?thesis
    by (simp add: decryptTwinUpdate_def Let_def)
qed

lemma decryptTwinUpdate_reachable:
  assumes "s = run env init_state txs"
    and "requestToEntityId s r \<noteq> 0"
    and "FHE_checkSignatures env r c p"
    and "abi_decode_strings env c = Some parts"
    and "(if length parts > 1 then parseUint32 (parts ! 1) else Inr 0) = Inr score"
  shows "\<exists>s'. decryptTwinUpdate env ctx s r c p = Inr s' \<and>
           decryptedTwins s' = (decryptedTwins s)(requestToEntityId s r :=
             \<lparr>stateSummary = (if length parts > 0 then parts ! 0 else []),
              healthScore = score, twin_revealed = True\<rparr>) \<and>
           events s' = events s @ [TwinDecrypted (requestToEntityId s r)] \<and>
           requestToEntityId s' = requestToEntityId s \<and>
           requestToTag s' = requestToTag s \<and>
           twin_id (encryptedTwins s' (requestToEntityId s r)) \<noteq> 0"
proof -
  have "twin_inv s"
    using assms(1) twin_inv_init twin_inv_run by simp
  then have "twin_id (encryptedTwins s (requestToEntityId s r)) = 0 \<longrightarrow> twinCount s \<noteq> - 1"
    using assms(2) twinCount_not_max by blast
  with assms(2-5) show ?thesis
    by (rule decryptTwinUpdate_Inr)
qed

lemma decryptTwinUpdate_facts:
  assumes "decryptTwinUpdate env ctx s r c p = Inr s'"
  shows "requestToEntityId s r \<noteq> 0 \<and> FHE_checkSignatures env r c p \<and>
         (\<exists>parts score. abi_decode_strings env c = Some parts \<and>
            (if length parts > 1 then parseUint32 (parts ! 1) else Inr 0) = Inr score) \<and>
         requestToEntityId s' = requestToEntityId s \<and> requestToTag s' = requestToTag s \<and>
         twin_id (encryptedTwins s' (requestToEntityId s r)) \<noteq> 0"
  using assms
  by (auto simp: decryptTwinUpdate_def Let_def checked_inc_def
      split: if_splits option.splits sum.splits)

lemma decryptRecommendation_Inr:
  assumes "requestToEntityId s r \<noteq> 0"
    and "FHE_checkSignatures env r c p"
    and "abi_decode_strings env c = Some items"
  shows "decryptRecommendation env s r c p =
           Inr (s\<lparr>decryptedRecommendations := (decryptedRecommendations s)(requestToEntityId s r :=
                    \<lparr>watering = (if length items > 0 then items ! 0 else []),
                     nutrients = (if length items > 1 then items ! 1 else []),
                     lightAdjust = (if length items > 2 then items ! 2 else []),
                     rec_revealed = True\<rparr>),
                  events := events s @ [RecommendationDecrypted (requestToEntityId s r)]\<rparr>)"
  using assms by (simp add: decryptRecommendation_def Let_def)

lemma decryptRecommendation_facts:
  assumes "decryptRecommendation env s r c p = Inr s'"
  shows "requestToEntityId s r \<noteq> 0 \<and> FHE_checkSignatures env r c p \<and>
         (\<exists>items. abi_decode_strings env c = Some items) \<and>
         requestToEntityId s' = requestToEntityId s \<and> requestToTag s' = requestToTag s"
  using assms
  by (auto simp: decryptRecommendation_def Let_def split: if_splits option.splits)

section \<open>Entries of the correlator stay\<close>

text \<open>
  C4. No callback removes or changes an entry of the correlator: after a callback has
  succeeded, \<open>requestToEntityId\<close> and \<open>requestToTag\<close> are what they were, and the same
  callback with the same request identifier, cleartexts and proof succeeds again.
\<close>

theorem correlator_entries_persist:
  "(decryptTwinUpdate env ctx s r c p = Inr s' \<longrightarrow>
      requestToEntityId s' = requestToEntityId s \<and> requestToTag s' = requestToTag s \<and>
      (\<exists>s''. decryptTwinUpdate env ctx' s' r c p = Inr s'')) \<and>
   (decryptRecommendation env s r c p = Inr s' \<longrightarrow>
      requestToEntityId s' = requestToEntityId s \<and> requestToTag s' = requestToTag s \<and>
      (\<exists>s''. decryptRecommendation env s' r c p = Inr s'')) \<and>
   (decryptAggregate env s r c p = Inr s' \<longrightarrow>
      requestToEntityId s' = requestToEntityId s \<and> requestToTag s' = requestToTag s \<and>
      (\<exists>s''. decryptAggregate env s' r c p = Inr s''))"
proof (intro conjI impI)
  assume a: "decryptTwinUpdate env ctx s r c p = Inr s'"
  note f = decryptTwinUpdate_facts [OF a]
  from f show "requestToEntityId s' = requestToEntityId s" by simp
  from f show "requestToTag s' = requestToTag s" by simp
  from f obtain parts score where d: "abi_decode_strings env c = Some parts"
    and sc: "(if length parts > 1 then parseUint32 (parts ! 1) else Inr 0) = Inr score"
    by blast
  from f have "requestToEntityId s' r \<noteq> 0" "FHE_checkSignatures env r c p"
    and "twin_id (encryptedTwins s' (requestToEntityId s' r)) = 0 \<longrightarrow> twinCount s' \<noteq> - 1"
    by simp_all
  from decryptTwinUpdate_Inr [OF this(1,2) d sc this(3)]
  show "\<exists>s''. decryptTwinUpdate env ctx' s' r c p = Inr s''" by blast
next
  assume a: "decryptRecommendation env s r c p = Inr s'"
  note f = decryptRecommendation_facts [OF a]
  from f show "requestToEntityId s' = requestToEntityId s" by simp
  from f show "requestToTag s' = requestToTag s" by simp
  from f obtain items where d: "abi_decode_strings env c = Some items" by blast
  from f have "requestToEntityId s' r \<noteq> 0" "FHE_checkSignatures env r c p" by simp_all
  from decryptRecommendation_Inr [OF this d]
  show "\<exists>s''. decryptRecommendation env s' r c p = Inr s''" by blast
next
  assume a: "decryptAggregate env s r c p = Inr s'"
  then obtain key v where k: "findMetricKeyByHash env s (requestToEntityId s r) = Inr key"
    and v: "abi_decode_uint32 env c = Some v"
    and s': "s' = s\<lparr>events := events s @ [PlainAggregateResult key v]\<rparr>"
    and ok: "FHE_checkSignatures env r c p"
    by (auto simp: decryptAggregate_def emitPlainAggregateResult_def Let_def
        split: if_splits sum.splits option.splits)
  from s' show "requestToEntityId s' = requestToEntityId s" by simp
  from s' show "requestToTag s' = requestToTag s" by simp
  from k v ok s' show "\<exists>s''. decryptAggregate env s' r c p = Inr s''"
    by (simp add: decryptAggregate_def findMetricKeyByHash_def)
qed


lemma test_split_payloads:
  "test_split ''Healthy,85% moisture;85;'' [] = [''Healthy,85% moisture'', ''85'']"
  "test_split ''Healthy;'' [] = [''Healthy'']"
  "test_split ''daily;low;'' [] = [''daily'', ''low'']"
  by simp_all

lemma parseUint32_85: "parseUint32 ''85'' = Inr 85"
  by (simp add: parseUint32_def)

theorem correlator_entries_persist_witness:
  "(\<exists>s'. decryptTwinUpdate test_env (test_ctx 0) test_state 7 ''Healthy,85% moisture;85;'' ''attested'' = Inr s' \<and>
      requestToEntityId s' 7 = 1 \<and>
      (\<exists>s''. decryptTwinUpdate test_env (test_ctx 1) s' 7 ''Healthy,85% moisture;85;'' ''attested'' = Inr s'')) \<and>
   (\<exists>s'. decryptRecommendation test_env test_state 8 ''daily;low;'' ''attested'' = Inr s' \<and>
      requestToEntityId s' 8 = 1 \<and>
      (\<exists>s''. decryptRecommendation test_env s' 8 ''daily;low;'' ''attested'' = Inr s''))"
proof -
  have "\<exists>s'. decryptTwinUpdate test_env (test_ctx 0) test_state 7 ''Healthy,85% moisture;85;'' ''attested'' = Inr s'"
    using decryptTwinUpdate_reachable [OF test_state_def, of 7 "''Healthy,85% moisture;85;''" "''attested''"
        "[''Healthy,85% moisture'', ''85'']" 85 "test_ctx 0"]
    by (auto simp: test_state_entities test_env_fields parseUint32_85)
  then obtain s1 where
    t: "decryptTwinUpdate test_env (test_ctx 0) test_state 7 ''Healthy,85% moisture;85;'' ''attested'' = Inr s1"
    by blast
  have "\<exists>s'. decryptRecommendation test_env test_state 8 ''daily;low;'' ''attested'' = Inr s'"
    by (simp add: decryptRecommendation_Inr [where items = "[''daily'', ''low'']"]
        test_state_entities test_env_fields)
  then obtain s2 where
    r: "decryptRecommendation test_env test_state 8 ''daily;low;'' ''attested'' = Inr s2"
    by blast
  from correlator_entries_persist [of test_env "test_ctx 0" test_state 7 "''Healthy,85% moisture;85;''"
      "''attested''" s1 "test_ctx 1"] t
  have "requestToEntityId s1 7 = 1 \<and>
      (\<exists>s''. decryptTwinUpdate test_env (test_ctx 1) s1 7 ''Healthy,85% moisture;85;'' ''attested'' = Inr s'')"
    by (simp add: test_state_entities)
  moreover
  from correlator_entries_persist [of test_env "test_ctx 0" test_state 8 "''daily;low;''"
      "''attested''" s2 "test_ctx 1"] r
  have "requestToEntityId s2 8 = 1 \<and>
      (\<exists>s''. decryptRecommendation test_env s2 8 ''daily;low;'' ''attested'' = Inr s'')"
    by (simp add: test_state_entities)
  ultimately show ?thesis
    using t r by blast
qed

theorem callback_order_witness:
  "(\<exists>s'. decryptTwinUpdate test_env (test_ctx 0) test_state 7 ''Healthy,85% moisture;85;'' ''attested'' = Inr s' \<and>
      FHE_checkSignatures test_env 7 ''Healthy,85% moisture;85;'' ''attested'' \<and>
      twin_revealed (decryptedTwins s' 1) \<and>
      events s' = events test_state @ [TwinDecrypted 1]) \<and>
   decryptTwinUpdate test_env (test_ctx 0) test_state 10 ''Healthy,85% moisture;85;'' ''attested'' =
     Inl (Revert ''Invalid request id'') \<and>
   decryptTwinUpdate test_env (test_ctx 0) test_state 7 ''Healthy,85% moisture;85;'' ''forged'' =
     Inl InvalidSignatures \<and>
   decryptAggregate test_env test_state 9 ''Healthy,85% moisture;85;'' ''forged'' = Inl InvalidSignatures"
proof -
  have "\<exists>s'. decryptTwinUpdate test_env (test_ctx 0) test_state 7 ''Healthy,85% moisture;85;'' ''attested'' = Inr s'"
    using decryptTwinUpdate_reachable [OF test_state_def, of 7 "''Healthy,85% moisture;85;''" "''attested''"
        "[''Healthy,85% moisture'', ''85'']" 85 "test_ctx 0"]
    by (auto simp: test_state_entities test_env_fields parseUint32_85)
  then obtain s1 where
    t: "decryptTwinUpdate test_env (test_ctx 0) test_state 7 ''Healthy,85% moisture;85;'' ''attested'' = Inr s1"
    by blast
  from callback_order [of test_state 7 test_env "test_ctx 0" "''Healthy,85% moisture;85;''" "''attested''"] t
  have a: "FHE_checkSignatures test_env 7 ''Healthy,85% moisture;85;'' ''attested'' \<and>
      twin_revealed (decryptedTwins s1 1) \<and> events s1 = events test_state @ [TwinDecrypted 1]"
    by (simp add: test_state_entities)
  from callback_order [of test_state 10 test_env "test_ctx 0" "''Healthy,85% moisture;85;''" "''attested''"]
  have b: "decryptTwinUpdate test_env (test_ctx 0) test_state 10 ''Healthy,85% moisture;85;'' ''attested'' =
     Inl (Revert ''Invalid request id'')"
    by (simp add: test_state_entities)
  from callback_order [of test_state 7 test_env "test_ctx 0" "''Healthy,85% moisture;85;''" "''forged''"]
  have c: "decryptTwinUpdate test_env (test_ctx 0) test_state 7 ''Healthy,85% moisture;85;'' ''forged'' =
     Inl InvalidSignatures"
    by (simp add: test_state_entities test_env_fields)
  from callback_order [of test_state 9 test_env "test_ctx 0" "''Healthy,85% moisture;85;''" "''forged''"]
  have d: "decryptAggregate test_env test_state 9 ''Healthy,85% moisture;85;'' ''forged'' = Inl InvalidSignatures"
    by (simp add: test_env_fields)
  from t a b c d show ?thesis
    by blast
qed

section \<open>Decoding the cleartexts\<close>

text \<open>
  C8. In a state the contract can reach, for a request registered for twin \<open>twinId\<close>, a
  valid proof and cleartexts that decode to the two strings \<open>Healthy,85% moisture\<close> and
  \<open>85\<close>, \<open>decryptTwinUpdate\<close> succeeds, and afterwards \<open>decryptedTwins[twinId]\<close> holds
  that summary, the health score \<open>85\<close> and \<open>revealed = true\<close>; \<open>parseUint32\<close> maps
  \<open>85\<close> to the number.
\<close>

theorem twin_update_scenario:
  assumes "s = run env init_state txs"
    and "requestToEntityId s requestId = twinId" and "twinId \<noteq> 0"
    and "FHE_checkSignatures env requestId cleartexts decryptionProof"
    and "abi_decode_strings env cleartexts = Some [''Healthy,85% moisture'', ''85'']"
  shows "parseUint32 ''85'' = Inr 85 \<and>
         (\<exists>s'. decryptTwinUpdate env ctx s requestId cleartexts decryptionProof = Inr s' \<and>
            decryptedTwins s' twinId =
              \<lparr>stateSummary = ''Healthy,85% moisture'', healthScore = 85, twin_revealed = True\<rparr> \<and>
            getDecryptedTwin s' twinId = (''Healthy,85% moisture'', 85, True))"
proof -
  have nz: "requestToEntityId s requestId \<noteq> 0"
    using assms(2,3) by simp
  have sc: "(if length [''Healthy,85% moisture'', ''85''] > 1
             then parseUint32 ([''Healthy,85% moisture'', ''85''] ! 1) else Inr 0) = Inr 85"
    by (simp add: parseUint32_85)
  from decryptTwinUpdate_reachable [OF assms(1) nz assms(4,5) sc, of ctx]
  obtain s' where "decryptTwinUpdate env ctx s requestId cleartexts decryptionProof = Inr s'"
    and "decryptedTwins s' twinId =
      \<lparr>stateSummary = ''Healthy,85% moisture'', healthScore = 85, twin_revealed = True\<rparr>"
    using assms(2) by auto
  then show ?thesis
    by (auto simp: parseUint32_85 getDecryptedTwin_def)
qed

theorem twin_update_scenario_witness:
  "test_state = run test_env init_state test_txs \<and>
   requestToEntityId test_state 7 = 1 \<and>
   FHE_checkSignatures test_env 7 ''Healthy,85% moisture;85;'' ''attested'' \<and>
   abi_decode_strings test_env ''Healthy,85% moisture;85;'' = Some [''Healthy,85% moisture'', ''85''] \<and>
   (\<exists>s'. decryptTwinUpdate test_env (test_ctx 0) test_state 7 ''Healthy,85% moisture;85;'' ''attested'' = Inr s' \<and>
      decryptedTwins s' 1 =
        \<lparr>stateSummary = ''Healthy,85% moisture'', healthScore = 85, twin_revealed = True\<rparr>)"
proof -
  have h2: "requestToEntityId test_state 7 = 1"
    by (rule test_state_entities)
  have h3: "(1 :: uint256) \<noteq> 0"
    by simp
  have h4: "FHE_checkSignatures test_env 7 ''Healthy,85% moisture;85;'' ''attested''"
    by (simp add: test_env_fields)
  have h5: "abi_decode_strings test_env ''Healthy,85% moisture;85;'' = Some [''Healthy,85% moisture'', ''85'']"
    by (simp add: test_env_fields)
  from twin_update_scenario [OF test_state_def h2 h3 h4 h5, of "test_ctx 0"] h2 h4 h5
  show ?thesis
    using test_state_def by blast
qed

text \<open>
  C6. In a state the contract can reach, for a registered request and a valid proof:
  cleartexts that decode to fewer than two strings make \<open>decryptTwinUpdate\<close> succeed, with
  the summary the first string if there is one and empty otherwise, and the health score
  \<open>0\<close>; cleartexts that decode to fewer than three strings make \<open>decryptRecommendation\<close>
  succeed, with every missing field empty. The fields are those of the list padded with
  empty strings.
\<close>

theorem short_payload_defaults:
  assumes "s = run env init_state txs"
    and "requestToEntityId s r = entity" and "entity \<noteq> 0"
    and "FHE_checkSignatures env r c p"
    and "abi_decode_strings env c = Some parts"
  shows "(length parts < 2 \<longrightarrow>
           (\<exists>s'. decryptTwinUpdate env ctx s r c p = Inr s' \<and>
              decryptedTwins s' entity =
                \<lparr>stateSummary = (parts @ [[]]) ! 0, healthScore = 0, twin_revealed = True\<rparr>)) \<and>
         (length parts < 3 \<longrightarrow>
           (\<exists>s'. decryptRecommendation env s r c p = Inr s' \<and>
              decryptedRecommendations s' entity =
                \<lparr>watering = (parts @ [[], [], []]) ! 0,
                 nutrients = (parts @ [[], [], []]) ! 1,
                 lightAdjust = (parts @ [[], [], []]) ! 2,
                 rec_revealed = True\<rparr>))"
proof (intro conjI impI)
  assume short: "length parts < 2"
  have nz: "requestToEntityId s r \<noteq> 0"
    using assms(2,3) by simp
  have sc: "(if length parts > 1 then parseUint32 (parts ! 1) else Inr 0) = Inr 0"
    using short by simp
  have pad: "(if length parts > 0 then parts ! 0 else []) = (parts @ [[]]) ! 0"
    by (cases parts) simp_all
  from decryptTwinUpdate_reachable [OF assms(1) nz assms(4,5) sc, of ctx]
  show "\<exists>s'. decryptTwinUpdate env ctx s r c p = Inr s' \<and>
      decryptedTwins s' entity = \<lparr>stateSummary = (parts @ [[]]) ! 0, healthScore = 0, twin_revealed = True\<rparr>"
    using assms(2) pad by auto
next
  assume short: "length parts < 3"
  have nz: "requestToEntityId s r \<noteq> 0"
    using assms(2,3) by simp
  have pad: "(if length parts > 0 then parts ! 0 else []) = (parts @ [[], [], []]) ! 0"
    "(if length parts > 1 then parts ! 1 else []) = (parts @ [[], [], []]) ! 1"
    "(if length parts > 2 then parts ! 2 else []) = (parts @ [[], [], []]) ! 2"
    using short by (auto simp: nth_append less_Suc_eq numeral_3_eq_3 numeral_2_eq_2)
  show "\<exists>s'. decryptRecommendation env s r c p = Inr s' \<and>
      decryptedRecommendations s' entity =
        \<lparr>watering = (parts @ [[], [], []]) ! 0, nutrients = (parts @ [[], [], []]) ! 1,
         lightAdjust = (parts @ [[], [], []]) ! 2, rec_revealed = True\<rparr>"
    using decryptRecommendation_Inr [OF nz assms(4,5)] assms(2) pad by simp
qed

theorem short_payload_defaults_witness:
  "test_state = run test_env init_state test_txs \<and>
   requestToEntityId test_state 7 = 1 \<and> requestToEntityId test_state 8 = 1 \<and>
   FHE_checkSignatures test_env 7 ''Healthy;'' ''attested'' \<and>
   abi_decode_strings test_env ''Healthy;'' = Some [''Healthy''] \<and>
   abi_decode_strings test_env ''daily;low;'' = Some [''daily'', ''low''] \<and>
   (\<exists>s'. decryptTwinUpdate test_env (test_ctx 0) test_state 7 ''Healthy;'' ''attested'' = Inr s' \<and>
      decryptedTwins s' 1 = \<lparr>stateSummary = ''Healthy'', healthScore = 0, twin_revealed = True\<rparr>) \<and>
   (\<exists>s'. decryptRecommendation test_env test_state 8 ''daily;low;'' ''attested'' = Inr s' \<and>
      decryptedRecommendations s' 1 =
        \<lparr>watering = ''daily'', nutrients = ''low'', lightAdjust = [], rec_revealed = True\<rparr>)"
proof -
  have h2: "requestToEntityId test_state 7 = 1" "requestToEntityId test_state 8 = 1"
    by (rule test_state_entities)+
  have h3: "(1 :: uint256) \<noteq> 0"
    by simp
  have h4: "FHE_checkSignatures test_env 7 ''Healthy;'' ''attested''"
    "FHE_checkSignatures test_env 8 ''daily;low;'' ''attested''"
    by (simp_all add: test_env_fields)
  have h5: "abi_decode_strings test_env ''Healthy;'' = Some [''Healthy'']"
    "abi_decode_strings test_env ''daily;low;'' = Some [''daily'', ''low'']"
    by (simp_all add: test_env_fields)
  from short_payload_defaults [OF test_state_def h2(1) h3 h4(1) h5(1), of "test_ctx 0"]
  have a: "\<exists>s'. decryptTwinUpdate test_env (test_ctx 0) test_state 7 ''Healthy;'' ''attested'' = Inr s' \<and>
      decryptedTwins s' 1 = \<lparr>stateSummary = ''Healthy'', healthScore = 0, twin_revealed = True\<rparr>"
    by simp
  from short_payload_defaults [OF test_state_def h2(2) h3 h4(2) h5(2), of "test_ctx 0"]
  have b: "\<exists>s'. decryptRecommendation test_env test_state 8 ''daily;low;'' ''attested'' = Inr s' \<and>
      decryptedRecommendations s' 1 =
        \<lparr>watering = ''daily'', nutrients = ''low'', lightAdjust = [], rec_revealed = True\<rparr>"
    by simp
  from a b h2 h4 h5 show ?thesis
    using test_state_def by blast
qed


section \<open>The ciphertexts of a twin update request\<close>

lemma handles_of_default:
  "handles_of env default_reading = replicate 6 (FHE_toBytes32 env 0)"
  by (simp add: handles_of_def default_reading_def numeral_eq_Suc)

lemma concat_map_const:
  "(\<forall>x\<in>set xs. f x = replicate k z) \<Longrightarrow> concat (map f xs) = replicate (length xs * k) z"
  by (induction xs) (simp_all add: replicate_add)

text \<open>
  C10, as the code has it. \<open>requestTwinUpdate\<close> does not check that a reading
  identifier was ever submitted. For every non-empty array of identifiers (short enough
  to be allocated) it collects, identifier by identifier, the six handles of
  \<open>readings[id]\<close> and passes them to \<open>FHE.requestDecryption\<close>; the call succeeds
  exactly when the library accepts them, and reverts without a trace when the library
  rejects them. In a state the contract can reach, an identifier that is \<open>0\<close> or above
  \<open>readingCount\<close> has the default reading, so its six handles are the zero handle's; if
  no identifier of the array was submitted, these are all that the library is given.
\<close>

theorem unknown_readings_not_validated:
  assumes "s = run env init_state txs"
    and "readingIds \<noteq> []" and "length readingIds * 6 < 2 ^ 64"
    and "cts = concat (map (\<lambda>rid. handles_of env (readings s rid)) readingIds)"
  shows "(requestDecryption_accepts ctx cts Sel_decryptTwinUpdate \<longrightarrow>
            (\<exists>s'. requestTwinUpdate env ctx s twinId readingIds = Inr s' \<and>
               decryptionRequests s' = decryptionRequests s @
                 [(requestDecryption_result ctx, cts, Sel_decryptTwinUpdate)] \<and>
               requestToEntityId s' (requestDecryption_result ctx) = twinId)) \<and>
         (\<not> requestDecryption_accepts ctx cts Sel_decryptTwinUpdate \<longrightarrow>
            requestTwinUpdate env ctx s twinId readingIds = Inl DecryptionRequestRejected \<and>
            transact env s (ctx, RequestTwinUpdate twinId readingIds) = s) \<and>
         (\<forall>rid. unwritten s rid \<longrightarrow>
            readings s rid = default_reading \<and>
            handles_of env (readings s rid) = replicate 6 (FHE_toBytes32 env 0)) \<and>
         ((\<forall>rid\<in>set readingIds. unwritten s rid) \<longrightarrow>
            cts = replicate (length readingIds * 6) (FHE_toBytes32 env 0))"
proof -
  have n: "\<not> 2 ^ 64 \<le> length readingIds" "\<not> 2 ^ 64 \<le> length readingIds * 6"
    using assms(2,3) by simp_all
  have first: "requestDecryption_accepts ctx cts Sel_decryptTwinUpdate \<longrightarrow>
            (\<exists>s'. requestTwinUpdate env ctx s twinId readingIds = Inr s' \<and>
               decryptionRequests s' = decryptionRequests s @
                 [(requestDecryption_result ctx, cts, Sel_decryptTwinUpdate)] \<and>
               requestToEntityId s' (requestDecryption_result ctx) = twinId)"
    using n assms(2,4) by (simp add: requestTwinUpdate_eq)
  have rejected: "\<not> requestDecryption_accepts ctx cts Sel_decryptTwinUpdate \<longrightarrow>
            requestTwinUpdate env ctx s twinId readingIds = Inl DecryptionRequestRejected \<and>
            transact env s (ctx, RequestTwinUpdate twinId readingIds) = s"
    using n assms(2,4) by (simp add: requestTwinUpdate_eq transact_def)
  have "reading_inv s"
    using assms(1) reading_inv_init reading_inv_run by simp
  then have second: "\<forall>rid. unwritten s rid \<longrightarrow>
            readings s rid = default_reading \<and>
            handles_of env (readings s rid) = replicate 6 (FHE_toBytes32 env 0)"
    by (simp add: reading_inv_def handles_of_default)
  then have third: "(\<forall>rid\<in>set readingIds. unwritten s rid) \<longrightarrow>
            cts = replicate (length readingIds * 6) (FHE_toBytes32 env 0)"
    unfolding assms(4) by (auto intro!: concat_map_const)
  from first rejected second third show ?thesis
    by blast
qed

lemma test_state_readingCount: "readingCount test_state = 3"
  by (simp add: test_defs)

lemma test_state_unwritten:
  "unwritten test_state 0" "unwritten test_state 4" "unwritten test_state 99"
  by (simp_all add: unwritten_def test_state_readingCount)

lemma test_ctx_fields:
  "requestDecryption_result (test_ctx r) = r"
  "requestDecryption_accepts (test_ctx r) cts sel = (0 \<notin> set cts)"
  "requestDecryption_result (lenient_ctx r) = r"
  "requestDecryption_accepts (lenient_ctx r) cts sel"
  by (simp_all add: test_ctx_def lenient_ctx_def)

theorem unknown_readings_not_validated_witness:
  "test_state = run test_env init_state test_txs \<and>
   unwritten test_state 0 \<and> unwritten test_state 4 \<and> unwritten test_state 99 \<and>
   concat (map (\<lambda>rid. handles_of test_env (readings test_state rid)) [0, 4, 99]) = replicate 18 0 \<and>
   requestDecryption_accepts (lenient_ctx 12) (replicate 18 0) Sel_decryptTwinUpdate \<and>
   (\<exists>s'. requestTwinUpdate test_env (lenient_ctx 12) test_state 2 [0, 4, 99] = Inr s' \<and>
      decryptionRequests s' = decryptionRequests test_state @
        [(12, replicate 18 0, Sel_decryptTwinUpdate)] \<and>
      requestToEntityId s' 12 = 2) \<and>
   \<not> requestDecryption_accepts (test_ctx 12) (replicate 18 0) Sel_decryptTwinUpdate \<and>
   requestTwinUpdate test_env (test_ctx 12) test_state 2 [0, 4, 99] = Inl DecryptionRequestRejected"
proof -
  let ?cts = "concat (map (\<lambda>rid. handles_of test_env (readings test_state rid)) [0, 4, 99])"
  have h2: "[0, 4, 99 :: uint256] \<noteq> []"
    by simp
  have h3: "length [0, 4, 99 :: uint256] * 6 < 2 ^ 64"
    by simp
  note u = test_state_unwritten
  then have all: "\<forall>rid\<in>set [0, 4, 99 :: uint256]. unwritten test_state rid"
    by simp
  note L = unknown_readings_not_validated [OF test_state_def h2 h3 refl, of "lenient_ctx 12" 2]
  note T = unknown_readings_not_validated [OF test_state_def h2 h3 refl, of "test_ctx 12" 2]
  from L all have "?cts = replicate (length [0, 4, 99 :: uint256] * 6) (FHE_toBytes32 test_env 0)"
    by blast
  then have eq: "?cts = replicate 18 0"
    by (simp add: test_env_fields)
  have acc: "requestDecryption_accepts (lenient_ctx 12) (replicate 18 0) Sel_decryptTwinUpdate"
    and rej: "\<not> requestDecryption_accepts (test_ctx 12) (replicate 18 0) Sel_decryptTwinUpdate"
    by (simp_all add: test_ctx_fields)
  from L acc have a: "\<exists>s'. requestTwinUpdate test_env (lenient_ctx 12) test_state 2 [0, 4, 99] = Inr s' \<and>
      decryptionRequests s' = decryptionRequests test_state @
        [(12, replicate 18 0, Sel_decryptTwinUpdate)] \<and>
      requestToEntityId s' 12 = 2"
    unfolding eq by (simp add: test_ctx_fields)
  from T rej have b: "requestTwinUpdate test_env (test_ctx 12) test_state 2 [0, 4, 99] =
      Inl DecryptionRequestRejected"
    unfolding eq by blast
  from u eq acc a rej b show ?thesis
    using test_state_def by blast
qed

text \<open>
  The claim as the specification states it, that the call succeeds, does not hold: the
  contract hands the zero handles of unwritten readings to the library unchecked, and
  where the library refuses the zero handle the call reverts, while the same call for the
  three readings that were submitted goes through.
\<close>

theorem unknown_readings_rejected_by_library:
  "unwritten test_state 0 \<and> unwritten test_state 4 \<and> unwritten test_state 99 \<and>
   requestTwinUpdate test_env (test_ctx 12) test_state 2 [0, 4, 99] = Inl DecryptionRequestRejected \<and>
   transact test_env test_state (test_ctx 12, RequestTwinUpdate 2 [0, 4, 99]) = test_state \<and>
   \<not> isl (requestTwinUpdate test_env (test_ctx 12) test_state 2 [1, 2, 3])"
proof -
  have r: "readings test_state 0 = default_reading" "readings test_state 4 = default_reading"
    "readings test_state 99 = default_reading"
    by (simp_all add: test_defs)
  have w: "handles_of test_env (readings test_state 1) = [11, 13, 15, 17, 19, 21]"
    "handles_of test_env (readings test_state 2) = [23, 25, 27, 29, 31, 33]"
    "handles_of test_env (readings test_state 3) = [35, 37, 39, 41, 43, 45]"
    by (simp_all add: test_defs)
  have a: "requestTwinUpdate test_env (test_ctx 12) test_state 2 [0, 4, 99] = Inl DecryptionRequestRejected"
    by (simp add: requestTwinUpdate_eq r handles_of_default test_ctx_fields test_env_fields)
  have b: "\<not> isl (requestTwinUpdate test_env (test_ctx 12) test_state 2 [1, 2, 3])"
    by (simp add: requestTwinUpdate_eq w test_ctx_fields)
  from a b test_state_unwritten show ?thesis
    by (simp add: transact_def)
qed

section \<open>The aggregate registry\<close>

lemma count_list_distinct:
  "distinct xs \<Longrightarrow> count_list xs x = (if x \<in> set xs then 1 else 0)"
  by (induction xs) auto

lemma agg_frame:
  assumes "execute env ctx s c = Inr s'" "\<And>k d. c \<noteq> AddEncryptedAggregate k d"
  shows "metricKeys s' = metricKeys s \<and> encryptedMetricAggregates s' = encryptedMetricAggregates s"
proof (cases c)
  case (SubmitEncryptedReading a b c d e f)
  with assms(1) show ?thesis
    by (auto simp: submitEncryptedReading_def split: sum.splits)
next
  case (RequestTwinUpdate t ids)
  with assms(1) show ?thesis
    by (auto simp: requestTwinUpdate_def Let_def split: if_splits)
next
  case (DecryptTwinUpdate r cl p)
  with assms(1) show ?thesis
    by (auto simp: decryptTwinUpdate_def Let_def checked_inc_def
        split: if_splits option.splits sum.splits)
next
  case (SubmitEncryptedRecommendationRequest a b c)
  with assms(1) show ?thesis
    by (auto simp: submitEncryptedRecommendationRequest_def Let_def split: sum.splits if_splits)
next
  case (DecryptRecommendation r cl p)
  with assms(1) show ?thesis
    by (auto simp: decryptRecommendation_def Let_def split: if_splits option.splits)
next
  case (AddEncryptedAggregate k d)
  with assms(2) show ?thesis by blast
next
  case (RequestAggregateDecryption k)
  with assms(1) show ?thesis
    by (auto simp: requestAggregateDecryption_def Let_def split: if_splits)
next
  case (DecryptAggregate r cl p)
  with assms(1) show ?thesis
    by (auto simp: decryptAggregate_def emitPlainAggregateResult_def Let_def
        split: if_splits option.splits sum.splits)
qed

lemma transact_other:
  assumes "\<And>k d. snd t \<noteq> AddEncryptedAggregate k d"
  shows "metricKeys (transact env s t) = metricKeys s \<and>
         encryptedMetricAggregates (transact env s t) = encryptedMetricAggregates s"
proof (cases "execute env (fst t) s (snd t)")
  case (Inl e)
  then show ?thesis by (simp add: transact_def)
next
  case (Inr s')
  from agg_frame [OF Inr assms] Inr show ?thesis
    by (simp add: transact_def)
qed

lemma transact_add:
  assumes "agg_inv env s"
  shows "metricKeys (transact env s (ctx, AddEncryptedAggregate k d)) =
           (if k \<in> set (metricKeys s) then metricKeys s else metricKeys s @ [k]) \<and>
         encryptedMetricAggregates (transact env s (ctx, AddEncryptedAggregate k d)) =
           (encryptedMetricAggregates s)(k :=
              FHE_add env (if k \<in> set (metricKeys s) then encryptedMetricAggregates s k
                           else FHE_asEuint32 env 0) d)"
  using assms by (simp add: transact_def addEncryptedAggregate_def agg_inv_def Let_def)

lemma agg_inv_transact:
  assumes "handles_ok env" "agg_inv env s"
  shows "agg_inv env (transact env s t)"
proof (cases "\<exists>k d. snd t = AddEncryptedAggregate k d")
  case True
  then obtain k d where t: "t = (fst t, AddEncryptedAggregate k d)"
    by (metis prod.collapse)
  from transact_add [OF assms(2), of "fst t" k d] assms show ?thesis
    by (subst t) (auto simp: agg_inv_def handles_ok_def)
next
  case False
  then have "\<And>k d. snd t \<noteq> AddEncryptedAggregate k d" by blast
  from transact_other [OF this, of env s] assms(2) show ?thesis
    by (simp add: agg_inv_def)
qed

lemma agg_inv_init: "handles_ok env \<Longrightarrow> agg_inv env init_state"
  by (simp add: agg_inv_def handles_ok_def init_state_def)

lemma deltas_of_other:
  "(\<And>k d. snd t \<noteq> AddEncryptedAggregate k d) \<Longrightarrow> deltas_of key (t # ts) = deltas_of key ts"
  by (cases t, cases "snd t") auto

lemma run_aggregates:
  assumes "handles_ok env" "agg_inv env s"
  shows "agg_inv env (run env s ts) \<and>
         (key \<in> set (metricKeys (run env s ts))) = (key \<in> set (metricKeys s) \<or> deltas_of key ts \<noteq> []) \<and>
         encryptedMetricAggregates (run env s ts) key =
           (if deltas_of key ts = [] then encryptedMetricAggregates s key
            else foldl (FHE_add env)
                   (if key \<in> set (metricKeys s) then encryptedMetricAggregates s key
                    else FHE_asEuint32 env 0)
                   (deltas_of key ts))"
  using assms(2)
proof (induction ts arbitrary: s)
  case Nil
  then show ?case by simp
next
  case (Cons t ts)
  let ?s1 = "transact env s t"
  have inv1: "agg_inv env ?s1"
    using assms(1) Cons.prems by (rule agg_inv_transact)
  note IH = Cons.IH [OF inv1]
  show ?case
  proof (cases "\<exists>k d. snd t = AddEncryptedAggregate k d")
    case True
    then obtain k d where t: "t = (fst t, AddEncryptedAggregate k d)"
      by (metis prod.collapse)
    note step = transact_add [OF Cons.prems, of "fst t" k d]
    have dl: "deltas_of key (t # ts) = (if k = key then d # deltas_of key ts else deltas_of key ts)"
      by (subst t) simp
    have keys1: "(key \<in> set (metricKeys ?s1)) = (key \<in> set (metricKeys s) \<or> k = key)"
      using step by (subst t) auto
    have agg1: "encryptedMetricAggregates ?s1 key =
        (if k = key then FHE_add env (if key \<in> set (metricKeys s) then encryptedMetricAggregates s key
                                      else FHE_asEuint32 env 0) d
         else encryptedMetricAggregates s key)"
      using step by (subst t) auto
    show ?thesis
      using IH keys1 agg1 dl by (auto simp: )
  next
    case False
    then have o: "\<And>k d. snd t \<noteq> AddEncryptedAggregate k d" by blast
    from IH transact_other [OF o, of env s] deltas_of_other [OF o, of key ts]
    show ?thesis by simp
  qed
qed


text \<open>
  C5. Starting from the initial state, after any list of transactions: \<open>metricKeys\<close>
  has no duplicates; a key is on it once if \<open>addEncryptedAggregate\<close> was ever called
  with it and not at all otherwise; and the accumulator of a key that was added is the
  encryption of zero with the deltas added to it in the order of the calls, so the
  initialization comes before the first addition. The library is relied on for this:
  \<open>FHE.add\<close> returns an initialized handle, and the zero handle is not initialized.
\<close>

theorem aggregate_keys_once:
  assumes "handles_ok env"
  shows "distinct (metricKeys (run env init_state txs)) \<and>
         count_list (metricKeys (run env init_state txs)) key =
           (if deltas_of key txs = [] then 0 else 1) \<and>
         encryptedMetricAggregates (run env init_state txs) key =
           (if deltas_of key txs = [] then 0
            else foldl (FHE_add env) (FHE_asEuint32 env 0) (deltas_of key txs))"
proof -
  note r = run_aggregates [OF assms agg_inv_init [OF assms], of txs key]
  from r have d: "distinct (metricKeys (run env init_state txs))"
    by (simp add: agg_inv_def)
  from r have k: "(key \<in> set (metricKeys (run env init_state txs))) = (deltas_of key txs \<noteq> [])"
    by (simp add: init_state_def)
  from r have a: "encryptedMetricAggregates (run env init_state txs) key =
           (if deltas_of key txs = [] then 0
            else foldl (FHE_add env) (FHE_asEuint32 env 0) (deltas_of key txs))"
    by (simp add: init_state_def)
  from d k a show ?thesis
    by (simp add: count_list_distinct)
qed

lemma handles_ok_test_env: "handles_ok test_env"
  by (simp add: handles_ok_def test_env_def or_eq_0_iff)

theorem aggregate_keys_once_witness:
  "handles_ok test_env \<and>
   deltas_of ''total_water'' test_txs = [61, 63] \<and>
   deltas_of ''avg_light'' test_txs = [] \<and>
   count_list (metricKeys test_state) ''total_water'' = 1 \<and>
   count_list (metricKeys test_state) ''avg_light'' = 0 \<and>
   encryptedMetricAggregates test_state ''total_water'' =
     FHE_add test_env (FHE_add test_env (FHE_asEuint32 test_env 0) 61) 63"
proof -
  have d: "deltas_of ''total_water'' test_txs = [61, 63]" "deltas_of ''avg_light'' test_txs = []"
    by (simp_all add: test_txs_def test_submissions_def)
  from aggregate_keys_once [OF handles_ok_test_env, of test_txs "''total_water''"]
    aggregate_keys_once [OF handles_ok_test_env, of test_txs "''avg_light''"]
  show ?thesis
    by (simp add: d test_state_def handles_ok_test_env)
qed


section \<open>The request correlator\<close>

lemma correlator_frame:
  assumes "requestDecryption_result (fst t) \<noteq> r"
  shows "requestToEntityId (transact env s t) r = requestToEntityId s r \<and>
         requestToTag (transact env s t) r = requestToTag s r"
proof (cases "execute env (fst t) s (snd t)")
  case (Inl e)
  then show ?thesis by (simp add: transact_def)
next
  case (Inr s')
  have "requestToEntityId s' r = requestToEntityId s r \<and> requestToTag s' r = requestToTag s r"
  proof (cases "snd t")
    case (SubmitEncryptedReading a b c d e f)
    with Inr show ?thesis
      by (auto simp: submitEncryptedReading_def split: sum.splits)
  next
    case (RequestTwinUpdate tw ids)
    with Inr assms show ?thesis
      by (auto simp: requestTwinUpdate_def Let_def split: if_splits)
  next
    case (DecryptTwinUpdate r' cl p)
    with Inr show ?thesis
      by (auto simp: decryptTwinUpdate_def Let_def checked_inc_def
          split: if_splits option.splits sum.splits)
  next
    case (SubmitEncryptedRecommendationRequest a b c)
    with Inr assms show ?thesis
      by (auto simp: submitEncryptedRecommendationRequest_def Let_def split: sum.splits if_splits)
  next
    case (DecryptRecommendation r' cl p)
    with Inr show ?thesis
      by (auto simp: decryptRecommendation_def Let_def split: if_splits option.splits)
  next
    case (AddEncryptedAggregate k d)
    with Inr show ?thesis
      by (auto simp: addEncryptedAggregate_def Let_def)
  next
    case (RequestAggregateDecryption k)
    with Inr assms show ?thesis
      by (auto simp: requestAggregateDecryption_def Let_def split: if_splits)
  next
    case (DecryptAggregate r' cl p)
    with Inr show ?thesis
      by (auto simp: decryptAggregate_def emitPlainAggregateResult_def Let_def
          split: if_splits option.splits sum.splits)
  qed
  with Inr show ?thesis by (simp add: transact_def)
qed

lemma correlator_frame_run:
  "\<forall>t\<in>set ts. requestDecryption_result (fst t) \<noteq> r \<Longrightarrow>
   requestToEntityId (run env s ts) r = requestToEntityId s r \<and>
   requestToTag (run env s ts) r = requestToTag s r"
  by (induction ts arbitrary: s) (simp_all add: correlator_frame)

lemma decryptTwinUpdate_effect:
  assumes "decryptTwinUpdate env ctx s r c p = Inr s'"
  shows "events s' = events s @ [TwinDecrypted (requestToEntityId s r)] \<and>
         twin_revealed (decryptedTwins s' (requestToEntityId s r))"
  using assms
  by (auto simp: decryptTwinUpdate_def Let_def checked_inc_def
      split: if_splits option.splits sum.splits)

lemma decryptRecommendation_effect:
  assumes "decryptRecommendation env s r c p = Inr s'"
  shows "events s' = events s @ [RecommendationDecrypted (requestToEntityId s r)] \<and>
         rec_revealed (decryptedRecommendations s' (requestToEntityId s r))"
  using assms
  by (auto simp: decryptRecommendation_def Let_def split: if_splits option.splits)

lemma decryptAggregate_effect:
  assumes "decryptAggregate env s r c p = Inr s'"
  shows "\<exists>k v. events s' = events s @ [PlainAggregateResult k v] \<and>
           k \<in> set (metricKeys s) \<and> keccak256 env k = requestToEntityId s r"
  using assms
  by (auto simp: decryptAggregate_def emitPlainAggregateResult_def findMetricKeyByHash_def Let_def
      split: if_splits sum.splits option.splits dest: findMetricKeyByHash_loop_Inr)

text \<open>
  C1. A request function stores the entity and the tag under the request identifier
  that the oracle returned. After any further transactions in which the oracle hands out
  other identifiers, the two mappings still hold that pair under the identifier, and a
  callback that is then invoked with it and succeeds acts on exactly that entity: the
  twin, the recommendation, or a metric key with the registered hash. (The callbacks
  read \<open>requestToEntityId\<close> only; no function of the contract reads \<open>requestToTag\<close>.)
\<close>

theorem registered_pair_resolved:
  assumes "\<forall>t\<in>set txs. requestDecryption_result (fst t) \<noteq> requestDecryption_result ctx"
    and "r = requestDecryption_result ctx"
    and "s2 = run env s1 txs"
  shows "(requestTwinUpdate env ctx s twinId readingIds = Inr s1 \<longrightarrow>
            requestToEntityId s2 r = twinId \<and>
            requestToTag s2 r = keccak256 env ''twin_update'' \<and>
            (\<forall>ctx' c p s3. decryptTwinUpdate env ctx' s2 r c p = Inr s3 \<longrightarrow>
               events s3 = events s2 @ [TwinDecrypted twinId] \<and>
               twin_revealed (decryptedTwins s3 twinId))) \<and>
         (submitEncryptedRecommendationRequest env ctx s w n l = Inr s1 \<longrightarrow>
            requestToEntityId s2 r = recommendationCount s + 1 \<and>
            requestToTag s2 r = keccak256 env ''recommendation'' \<and>
            (\<forall>c p s3. decryptRecommendation env s2 r c p = Inr s3 \<longrightarrow>
               events s3 = events s2 @ [RecommendationDecrypted (recommendationCount s + 1)] \<and>
               rec_revealed (decryptedRecommendations s3 (recommendationCount s + 1)))) \<and>
         (requestAggregateDecryption env ctx s key = Inr s1 \<longrightarrow>
            requestToEntityId s2 r = keccak256 env key \<and>
            requestToTag s2 r = keccak256 env ''aggregate'' \<and>
            (\<forall>c p s3. decryptAggregate env s2 r c p = Inr s3 \<longrightarrow>
               (\<exists>k v. events s3 = events s2 @ [PlainAggregateResult k v] \<and>
                  k \<in> set (metricKeys s2) \<and> keccak256 env k = keccak256 env key)))"
proof -
  have keep: "requestToEntityId s2 r = requestToEntityId s1 r \<and> requestToTag s2 r = requestToTag s1 r"
    using correlator_frame_run [of txs r env s1] assms by simp
  have twin: "requestTwinUpdate env ctx s twinId readingIds = Inr s1 \<longrightarrow>
      requestToEntityId s1 r = twinId \<and> requestToTag s1 r = keccak256 env ''twin_update''"
    using assms(2) by (auto simp: requestTwinUpdate_def Let_def split: if_splits)
  have recm: "submitEncryptedRecommendationRequest env ctx s w n l = Inr s1 \<longrightarrow>
      requestToEntityId s1 r = recommendationCount s + 1 \<and>
      requestToTag s1 r = keccak256 env ''recommendation''"
    using assms(2)
    by (auto simp: submitEncryptedRecommendationRequest_def checked_inc_def Let_def split: if_splits)
  have aggr: "requestAggregateDecryption env ctx s key = Inr s1 \<longrightarrow>
      requestToEntityId s1 r = keccak256 env key \<and> requestToTag s1 r = keccak256 env ''aggregate''"
    using assms(2) by (auto simp: requestAggregateDecryption_def Let_def split: if_splits)
  have A: "requestTwinUpdate env ctx s twinId readingIds = Inr s1 \<longrightarrow>
            requestToEntityId s2 r = twinId \<and>
            requestToTag s2 r = keccak256 env ''twin_update'' \<and>
            (\<forall>ctx' c p s3. decryptTwinUpdate env ctx' s2 r c p = Inr s3 \<longrightarrow>
               events s3 = events s2 @ [TwinDecrypted twinId] \<and>
               twin_revealed (decryptedTwins s3 twinId))"
  proof (intro impI conjI allI)
    assume h: "requestTwinUpdate env ctx s twinId readingIds = Inr s1"
    with keep twin show e: "requestToEntityId s2 r = twinId" by simp
    from h keep twin show "requestToTag s2 r = keccak256 env ''twin_update''" by simp
    fix ctx' c p s3
    assume "decryptTwinUpdate env ctx' s2 r c p = Inr s3"
    from decryptTwinUpdate_effect [OF this] e
    show "events s3 = events s2 @ [TwinDecrypted twinId]"
      and "twin_revealed (decryptedTwins s3 twinId)" by simp_all
  qed
  have B: "submitEncryptedRecommendationRequest env ctx s w n l = Inr s1 \<longrightarrow>
            requestToEntityId s2 r = recommendationCount s + 1 \<and>
            requestToTag s2 r = keccak256 env ''recommendation'' \<and>
            (\<forall>c p s3. decryptRecommendation env s2 r c p = Inr s3 \<longrightarrow>
               events s3 = events s2 @ [RecommendationDecrypted (recommendationCount s + 1)] \<and>
               rec_revealed (decryptedRecommendations s3 (recommendationCount s + 1)))"
  proof (intro impI conjI allI)
    assume h: "submitEncryptedRecommendationRequest env ctx s w n l = Inr s1"
    with keep recm show e: "requestToEntityId s2 r = recommendationCount s + 1" by simp
    from h keep recm show "requestToTag s2 r = keccak256 env ''recommendation''" by simp
    fix c p s3
    assume "decryptRecommendation env s2 r c p = Inr s3"
    from decryptRecommendation_effect [OF this] e
    show "events s3 = events s2 @ [RecommendationDecrypted (recommendationCount s + 1)]"
      and "rec_revealed (decryptedRecommendations s3 (recommendationCount s + 1))" by simp_all
  qed
  have C: "requestAggregateDecryption env ctx s key = Inr s1 \<longrightarrow>
            requestToEntityId s2 r = keccak256 env key \<and>
            requestToTag s2 r = keccak256 env ''aggregate'' \<and>
            (\<forall>c p s3. decryptAggregate env s2 r c p = Inr s3 \<longrightarrow>
               (\<exists>k v. events s3 = events s2 @ [PlainAggregateResult k v] \<and>
                  k \<in> set (metricKeys s2) \<and> keccak256 env k = keccak256 env key))"
  proof (intro impI conjI allI)
    assume h: "requestAggregateDecryption env ctx s key = Inr s1"
    with keep aggr show e: "requestToEntityId s2 r = keccak256 env key" by simp
    from h keep aggr show "requestToTag s2 r = keccak256 env ''aggregate''" by simp
    fix c p s3
    assume "decryptAggregate env s2 r c p = Inr s3"
    from decryptAggregate_effect [OF this] e
    show "\<exists>k v. events s3 = events s2 @ [PlainAggregateResult k v] \<and>
        k \<in> set (metricKeys s2) \<and> keccak256 env k = keccak256 env key" by simp
  qed
  from A B C show ?thesis
    by blast
qed


lemma test_request_accepted:
  "\<exists>s'. requestTwinUpdate test_env (test_ctx 7) (run test_env init_state test_submissions) 1 [1, 2, 3] =
     Inr s'"
  by (simp add: test_defs)

theorem registered_pair_resolved_witness:
  "requestTwinUpdate test_env (test_ctx 7) (run test_env init_state test_submissions) 1 [1, 2, 3] =
     Inr (transact test_env (run test_env init_state test_submissions)
            (test_ctx 7, RequestTwinUpdate 1 [1, 2, 3])) \<and>
   requestToEntityId
     (run test_env (transact test_env (run test_env init_state test_submissions)
                      (test_ctx 7, RequestTwinUpdate 1 [1, 2, 3]))
        [(test_ctx 8, SubmitEncryptedRecommendationRequest 51 53 55),
         (test_ctx 9, RequestTwinUpdate 2 [1])]) 7 = 1 \<and>
   requestToTag
     (run test_env (transact test_env (run test_env init_state test_submissions)
                      (test_ctx 7, RequestTwinUpdate 1 [1, 2, 3]))
        [(test_ctx 8, SubmitEncryptedRecommendationRequest 51 53 55),
         (test_ctx 9, RequestTwinUpdate 2 [1])]) 7 = keccak256 test_env ''twin_update'' \<and>
   (\<exists>s3. decryptTwinUpdate test_env (test_ctx 0)
      (run test_env (transact test_env (run test_env init_state test_submissions)
                       (test_ctx 7, RequestTwinUpdate 1 [1, 2, 3]))
        [(test_ctx 8, SubmitEncryptedRecommendationRequest 51 53 55),
         (test_ctx 9, RequestTwinUpdate 2 [1])]) 7 ''Healthy,85% moisture;85;'' ''attested'' = Inr s3 \<and>
      events s3 =
        events (run test_env (transact test_env (run test_env init_state test_submissions)
                                (test_ctx 7, RequestTwinUpdate 1 [1, 2, 3]))
          [(test_ctx 8, SubmitEncryptedRecommendationRequest 51 53 55),
           (test_ctx 9, RequestTwinUpdate 2 [1])]) @ [TwinDecrypted 1] \<and>
      twin_revealed (decryptedTwins s3 1))"
proof -
  let ?txs = "[(test_ctx 8, SubmitEncryptedRecommendationRequest 51 53 55),
               (test_ctx 9, RequestTwinUpdate 2 [1])]"
  let ?s0 = "run test_env init_state test_submissions"
  let ?s1 = "transact test_env ?s0 (test_ctx 7, RequestTwinUpdate 1 [1, 2, 3])"
  let ?s2 = "run test_env ?s1 ?txs"
  have h1: "\<forall>t\<in>set ?txs. requestDecryption_result (fst t) \<noteq> requestDecryption_result (test_ctx 7)"
    by (simp add: test_ctx_def)
  have h2: "7 = requestDecryption_result (test_ctx 7)"
    by (simp add: test_ctx_def)
  from test_request_accepted obtain s' where
    "requestTwinUpdate test_env (test_ctx 7) ?s0 1 [1, 2, 3] = Inr s'"
    by blast
  then have h3: "requestTwinUpdate test_env (test_ctx 7) ?s0 1 [1, 2, 3] = Inr ?s1"
    by (simp add: transact_def)
  note T = registered_pair_resolved [OF h1 h2 refl, of test_env ?s0 1 "[1, 2, 3]" ?s1]
  from T h3 have e: "requestToEntityId ?s2 7 = 1"
    and g: "requestToTag ?s2 7 = keccak256 test_env ''twin_update''"
    by blast+
  have reach: "?s2 = run test_env init_state
      (test_submissions @ (test_ctx 7, RequestTwinUpdate 1 [1, 2, 3]) # ?txs)"
    by (simp add: run_append)
  have nz: "requestToEntityId ?s2 7 \<noteq> 0"
    using e by simp
  from decryptTwinUpdate_reachable [OF reach nz, of "''Healthy,85% moisture;85;''" "''attested''"
      "[''Healthy,85% moisture'', ''85'']" 85 "test_ctx 0"]
  obtain s3 where
    d: "decryptTwinUpdate test_env (test_ctx 0) ?s2 7 ''Healthy,85% moisture;85;'' ''attested'' = Inr s3"
    by (auto simp: test_env_fields parseUint32_85)
  from T h3 d have "events s3 = events ?s2 @ [TwinDecrypted 1] \<and> twin_revealed (decryptedTwins s3 1)"
    by blast
  with h3 e g d show ?thesis
    by blast
qed

end
